theory Spec2Isabelle
  imports Main "HOL-Library.Word"
begin

section \<open>fpb-tools build module (fpb\_tools/build.py)\<close>

text \<open>
  A shallow embedding of \<^verbatim>\<open>fpb_tools/build.py\<close>: the environment build \<^verbatim>\<open>env\<close>, the
  paired build \<^verbatim>\<open>car_fob_pair\<close>, the device build \<^verbatim>\<open>make_dev\<close> and the image packager
  \<^verbatim>\<open>package_device\<close>.

  The Python functions act on the file system, on a logger, on the docker daemon and on a
  shell. The model threads a world through every function: the files, an opaque state of
  everything outside the process (docker images, volumes, containers), and the trace of
  the effects the code has requested, in program order. A Python exception is the left
  injection of the result; the world is returned with it, since the effects performed
  before a raise stay.
\<close>

subsection \<open>Data\<close>

type_synonym byte = "8 word"
type_synonym bytes = "byte list"

text \<open>
  A Python \<^verbatim>\<open>str\<close> is represented by the list of the bytes of its UTF-8 encoding, so that
  \<^verbatim>\<open>+\<close>, \<^verbatim>\<open>join\<close> and f-strings are list concatenation. A path is the string that
  \<^verbatim>\<open>str(path)\<close> returns.
\<close>

type_synonym path = string

text \<open>\<^verbatim>\<open>HandlerRet\<close>: the pair (stdout, stderr) every handler returns.\<close>

type_synonym HandlerRet = "bytes \<times> bytes"

text \<open>An entry of a docker build log: a JSON object with string values, as a dict.\<close>

type_synonym log_entry = "(string \<times> string) list"

datatype node = File bytes | Dir

text \<open>
  The file system. A path names a file through the operating system: \<open>locate\<close> gives
  the identity of the file a path names, so that two spellings of a path, or two links,
  have one identity; \<open>traversed\<close> gives the identities of the directories that are
  walked to reach the last entry of a path, the root first; \<open>nodes\<close> holds what is
  stored under an identity. The code of this module never creates a link or renames a
  file, so it changes \<open>nodes\<close> only; a command run by \<^verbatim>\<open>run_shell\<close> may change
  all three.
\<close>

record filesystem =
  nodes :: "path \<Rightarrow> node option"
  locate :: "path \<Rightarrow> path"
  traversed :: "path \<Rightarrow> path list"

text \<open>
  The exceptions that reach the model. The first four are the built-in errors of the file
  operations, \<open>BuildError\<close> is \<^verbatim>\<open>docker.errors.BuildError\<close> with its message and its
  \<^verbatim>\<open>build_log\<close>, \<open>DockerException\<close> is any other error of the docker client,
  \<open>ShellError\<close> is the error of \<^verbatim>\<open>run_shell\<close> (return code, stdout, stderr), and
  \<open>UnicodeDecodeError\<close> is the error of reading a file as text.
\<close>

datatype error =
    FileNotFoundError path
  | NotADirectoryError path
  | IsADirectoryError path
  | FileExistsError path
  | UnicodeDecodeError
  | BuildError string "log_entry list"
  | DockerException string
  | ShellError int bytes bytes

text \<open>The effects the code requests, as they are recorded in the trace.\<close>

datatype event =
    LogInfo string
  | LogError string
  | LogDebug string
  | OpenRead path
  | Tar path
  | ImagesBuild string
  | Mkdir path
  | RunShell string
  | ReadBytes path
  | WriteBytes path bytes

record 'x world =
  files :: filesystem
  ext :: 'x
  trace :: "event list"

text \<open>
  What the module imports and does not define. \<open>resolve\<close> and \<open>joinpath\<close> are
  \<^verbatim>\<open>Path.resolve\<close> and the operator \<^verbatim>\<open>/\<close> of pathlib; \<open>decode\<close> is the decoding of a file
  opened in text mode (it depends on the locale); \<open>tar\<close> is \<^verbatim>\<open>docker.utils.tar\<close>, which
  reads the build directory; \<open>images_build\<close> is \<^verbatim>\<open>docker.from_env()\<close> followed by
  \<^verbatim>\<open>client.images.build(tag=..., fileobj=..., custom_context=True)\<close>, returning the build
  log; \<open>run_shell\<close> is \<^verbatim>\<open>fpb_tools.utils.run_shell\<close>, which runs a command that may change
  the files and everything outside the process; \<open>FW_FLASH_SIZE\<close> and \<open>FW_EEPROM_SIZE\<close>
  are the two constants of \<^verbatim>\<open>fpb_tools.device\<close>.
\<close>

record 'x runtime =
  resolve :: "path \<Rightarrow> path"
  joinpath :: "path \<Rightarrow> path \<Rightarrow> path"
  decode :: "bytes \<Rightarrow> error + string"
  tar :: "path \<Rightarrow> string \<times> string \<Rightarrow> filesystem \<Rightarrow> error + bytes"
  images_build :: "string \<Rightarrow> bytes \<Rightarrow> 'x \<Rightarrow> (error + log_entry list) \<times> 'x"
  run_shell :: "string \<Rightarrow> filesystem \<times> 'x \<Rightarrow> (error + HandlerRet) \<times> filesystem \<times> 'x"
  FW_FLASH_SIZE :: nat
  FW_EEPROM_SIZE :: nat

subsection \<open>The file system and the logger\<close>

text \<open>
  Reaching a path walks its directories: a missing one raises \<^verbatim>\<open>FileNotFoundError\<close>, a
  regular file in the place of one raises \<^verbatim>\<open>NotADirectoryError\<close>. Permissions, quotas and
  device errors are outside the model: where a property needs a write or \<^verbatim>\<open>mkdir\<close> to
  succeed, it takes the normal return as a hypothesis.
\<close>

fun walk :: "(path \<Rightarrow> node option) \<Rightarrow> path list \<Rightarrow> path \<Rightarrow> error option" where
  "walk ns [] p = None"
| "walk ns (d # ds) p =
     (case ns d of
        None \<Rightarrow> Some (FileNotFoundError p)
      | Some (File bs) \<Rightarrow> Some (NotADirectoryError p)
      | Some Dir \<Rightarrow> walk ns ds p)"

definition path_error :: "filesystem \<Rightarrow> path \<Rightarrow> error option" where
  "path_error fs p = walk (nodes fs) (traversed fs p) p"

text \<open>What a path names, or the error of looking it up.\<close>

definition stat :: "filesystem \<Rightarrow> path \<Rightarrow> error + node" where
  "stat fs p =
     (case path_error fs p of
        Some e \<Rightarrow> Inl e
      | None \<Rightarrow>
          (case nodes fs (locate fs p) of
             None \<Rightarrow> Inl (FileNotFoundError p)
           | Some n \<Rightarrow> Inr n))"

text \<open>The contents of the file at a path: what \<^verbatim>\<open>Path.read_bytes\<close> returns or raises.\<close>

definition read_file :: "filesystem \<Rightarrow> path \<Rightarrow> error + bytes" where
  "read_file fs p =
     (case stat fs p of
        Inl e \<Rightarrow> Inl e
      | Inr Dir \<Rightarrow> Inl (IsADirectoryError p)
      | Inr (File bs) \<Rightarrow> Inr bs)"

text \<open>
  \<^verbatim>\<open>Path.write_bytes\<close>: the file is created in its directory or overwritten as a whole.
  The write reaches the file the path names, under whatever spelling.
\<close>

definition write_file :: "filesystem \<Rightarrow> path \<Rightarrow> bytes \<Rightarrow> error + filesystem" where
  "write_file fs p bs =
     (case path_error fs p of
        Some e \<Rightarrow> Inl e
      | None \<Rightarrow>
          (case nodes fs (locate fs p) of
             Some Dir \<Rightarrow> Inl (IsADirectoryError p)
           | _ \<Rightarrow> Inr (fs\<lparr>nodes := (nodes fs)(locate fs p \<mapsto> File bs)\<rparr>)))"

text \<open>
  \<^verbatim>\<open>Path.mkdir()\<close> with its defaults (\<^verbatim>\<open>parents=False\<close>, \<^verbatim>\<open>exist_ok=False\<close>): the
  directories above must be there, the path itself must not.
\<close>

definition make_directory :: "filesystem \<Rightarrow> path \<Rightarrow> error + filesystem" where
  "make_directory fs p =
     (case path_error fs p of
        Some e \<Rightarrow> Inl e
      | None \<Rightarrow>
          (case nodes fs (locate fs p) of
             Some n \<Rightarrow> Inl (FileExistsError p)
           | None \<Rightarrow> Inr (fs\<lparr>nodes := (nodes fs)(locate fs p \<mapsto> Dir)\<rparr>)))"

text \<open>Every request is recorded in the trace, also when it raises.\<close>

definition emit :: "event \<Rightarrow> 'x world \<Rightarrow> 'x world" where
  "emit ev w = w\<lparr>trace := trace w @ [ev]\<rparr>"

text \<open>\<^verbatim>\<open>Path.exists()\<close>: false when the path cannot be reached.\<close>

definition path_exists :: "path \<Rightarrow> 'x world \<Rightarrow> bool" where
  "path_exists p w = (case stat (files w) p of Inl e \<Rightarrow> False | Inr n \<Rightarrow> True)"

definition mkdir :: "path \<Rightarrow> 'x world \<Rightarrow> (error + unit) \<times> 'x world" where
  "mkdir p w =
     (case make_directory (files w) p of
        Inl e \<Rightarrow> (Inl e, emit (Mkdir p) w)
      | Inr fs \<Rightarrow> (Inr (), (emit (Mkdir p) w)\<lparr>files := fs\<rparr>))"

definition read_bytes :: "path \<Rightarrow> 'x world \<Rightarrow> (error + bytes) \<times> 'x world" where
  "read_bytes p w = (read_file (files w) p, emit (ReadBytes p) w)"

definition write_bytes :: "path \<Rightarrow> bytes \<Rightarrow> 'x world \<Rightarrow> (error + unit) \<times> 'x world" where
  "write_bytes p bs w =
     (case write_file (files w) p bs of
        Inl e \<Rightarrow> (Inl e, emit (WriteBytes p bs) w)
      | Inr fs \<Rightarrow> (Inr (), (emit (WriteBytes p bs) w)\<lparr>files := fs\<rparr>))"

text \<open>\<^verbatim>\<open>bytes.ljust(width, fill)\<close>: the bytes themselves when they are \<open>width\<close> long or longer.\<close>

definition ljust :: "bytes \<Rightarrow> nat \<Rightarrow> byte \<Rightarrow> bytes" where
  "ljust bs width fill = bs @ replicate (width - length bs) fill"

subsection \<open>package\_device\<close>

text \<open>
  \<^verbatim>\<open>package_device(bin_path, eeprom_path, image_path)\<close>, with the two constants of
  \<^verbatim>\<open>fpb_tools.device\<close> as its first arguments. Both files are read before anything is
  written.
\<close>

definition package_device ::
  "nat \<Rightarrow> nat \<Rightarrow> path \<Rightarrow> path \<Rightarrow> path \<Rightarrow> 'x world \<Rightarrow> (error + unit) \<times> 'x world" where
  "package_device flash_size eeprom_size bin_path eeprom_path image_path w =
     (case read_bytes bin_path w of
        (Inl e, w1) \<Rightarrow> (Inl e, w1)
      | (Inr bin_data, w1) \<Rightarrow>
          (let image_bin_data = ljust bin_data flash_size 0xFF in
           case read_bytes eeprom_path w1 of
             (Inl e, w2) \<Rightarrow> (Inl e, w2)
           | (Inr eeprom_data, w2) \<Rightarrow>
               (let image_eeprom_data = ljust eeprom_data eeprom_size 0xFF;
                    image_data = image_bin_data @ image_eeprom_data
                in write_bytes image_path image_data w2)))"

subsection \<open>make\_dev\<close>

text \<open>The double quote of the command line.\<close>

definition dq :: string where
  "dq = [CHR 0x22]"

text \<open>
  The name of the secrets volume: the text between \<^verbatim>\<open>-v\<close> and \<^verbatim>\<open>:/secrets\<close> in the command
  of \<^verbatim>\<open>make_dev\<close>, \<^verbatim>\<open>{image}.{name}.{deployment}.secrets.vol\<close>.
\<close>

definition secrets_volume :: "string \<Rightarrow> string \<Rightarrow> string \<Rightarrow> string" where
  "secrets_volume image_repo name deployment =
     image_repo @ ''.'' @ name @ ''.'' @ deployment @ ''.secrets.vol''"

text \<open>
  The argument of \<^verbatim>\<open>run_shell\<close> in \<^verbatim>\<open>make_dev\<close>, literal by literal. The parameter
  \<^verbatim>\<open>image\<close> of the source is \<open>image_repo\<close> here and below. \<open>dev_in\<close> and
  \<open>dev_out\<close> are the resolved host paths; the three artifact paths are the paths inside the
  container.
\<close>

definition make_dev_command ::
  "string \<Rightarrow> string \<Rightarrow> string \<Rightarrow> path \<Rightarrow> path \<Rightarrow> string \<Rightarrow> string \<Rightarrow> string \<Rightarrow> string" where
  "make_dev_command image_repo name deployment dev_in dev_out dev_name defines make_target =
     (let tag = image_repo @ '':'' @ name;
          bin_path = ''/dev_out/'' @ dev_name @ ''.bin'';
          elf_path = ''/dev_out/'' @ dev_name @ ''.elf'';
          eeprom_path = ''/dev_out/'' @ dev_name @ ''.eeprom''
      in ''docker run''
         @ '' -v '' @ dq @ dev_in @ dq @ '':/dev_in:ro''
         @ '' -v '' @ dq @ dev_out @ dq @ '':/dev_out''
         @ '' -v '' @ secrets_volume image_repo name deployment @ '':/secrets''
         @ '' --workdir=/root''
         @ '' '' @ tag @ '' /bin/bash -c''
         @ '' '' @ dq
         @ '' cp -r /dev_in/. /root/ &&''
         @ '' make '' @ make_target
         @ '' '' @ defines
         @ '' SECRETS_DIR=/secrets''
         @ '' BIN_PATH='' @ bin_path
         @ '' ELF_PATH='' @ elf_path
         @ '' EEPROM_PATH='' @ eeprom_path
         @ dq)"

text \<open>
  The block \<^verbatim>\<open># Create output directory\<close>: \<^verbatim>\<open>mkdir\<close> is requested only when
  \<^verbatim>\<open>dev_out.exists()\<close> is false.
\<close>

definition create_output_directory ::
  "string \<Rightarrow> string \<Rightarrow> path \<Rightarrow> 'x world \<Rightarrow> (error + unit) \<times> 'x world" where
  "create_output_directory tag deployment dev_out w =
     (if \<not> path_exists dev_out w
      then mkdir dev_out
             (emit (LogInfo (tag @ '':'' @ deployment @ '': Making output directory '' @ dev_out)) w)
      else (Inr (), w))"

text \<open>
  \<^verbatim>\<open>await run_shell(cmd)\<close>: the command runs on the files and on everything outside the
  process, and leaves both as it likes, also when it raises.
\<close>

definition await_run_shell ::
  "'x runtime \<Rightarrow> string \<Rightarrow> 'x world \<Rightarrow> (error + HandlerRet) \<times> 'x world" where
  "await_run_shell rt cmd w =
     (case run_shell rt cmd (files w, ext w) of
        (r, fs, x) \<Rightarrow> (r, (emit (RunShell cmd) w)\<lparr>files := fs, ext := x\<rparr>))"

definition make_dev ::
  "'x runtime \<Rightarrow> string \<Rightarrow> string \<Rightarrow> path \<Rightarrow> string \<Rightarrow> string \<Rightarrow> path \<Rightarrow> path \<Rightarrow> string \<Rightarrow> string
     \<Rightarrow> 'x world \<Rightarrow> (error + HandlerRet) \<times> 'x world" where
  "make_dev rt image_repo name design deployment dev_name dev_in dev_out defines make_target w =
     (let tag = image_repo @ '':'' @ name;
          dev_in = resolve rt (joinpath rt design dev_in);
          dev_out = resolve rt dev_out
      in case create_output_directory tag deployment dev_out w of
           (Inl e, w1) \<Rightarrow> (Inl e, w1)
         | (Inr u, w1) \<Rightarrow>
             (case await_run_shell rt
                     (make_dev_command image_repo name deployment dev_in dev_out dev_name
                        defines make_target) w1 of
                (Inl e, w2) \<Rightarrow> (Inl e, w2)
              | (Inr output, w2) \<Rightarrow>
                  (let w3 = emit (LogInfo (tag @ '':'' @ deployment @ '': Built device '' @ dev_name)) w2;
                       w4 = emit (LogInfo (tag @ '':'' @ deployment
                              @ '': Packaging image for device '' @ dev_name)) w3;
                       bin_path = joinpath rt dev_out (dev_name @ ''.bin'');
                       eeprom_path = joinpath rt dev_out (dev_name @ ''.eeprom'');
                       image_path = joinpath rt dev_out (dev_name @ ''.img'')
                   in case package_device (FW_FLASH_SIZE rt) (FW_EEPROM_SIZE rt)
                             bin_path eeprom_path image_path w4 of
                        (Inl e, w5) \<Rightarrow> (Inl e, w5)
                      | (Inr u', w5) \<Rightarrow>
                          (Inr output,
                           emit (LogInfo (tag @ '':'' @ deployment @ '': Packaged device ''
                                   @ dev_name @ '' image'')) w5))))"

subsection \<open>car\_fob\_pair\<close>






subsection \<open>env\<close>

text \<open>
  \<^verbatim>\<open>open(dockerfile_name, "r")\<close> and \<^verbatim>\<open>df.read()\<close>: the open fails as a read of the
  path does, the read decodes the bytes of the file.
\<close>

definition open_read :: "'x runtime \<Rightarrow> path \<Rightarrow> 'x world \<Rightarrow> (error + string) \<times> 'x world" where
  "open_read rt p w =
     (case read_file (files w) p of
        Inl e \<Rightarrow> (Inl e, emit (OpenRead p) w)
      | Inr bs \<Rightarrow> (decode rt bs, emit (OpenRead p) w))"

text \<open>
  \<^verbatim>\<open>str.strip()\<close> removes the white space of Python at both ends. In UTF-8 these are the
  bytes 09 to 0D, 1C to 1F and 20, the two-byte characters U+0085 and U+00A0, and the
  three-byte characters U+1680, U+2000 to U+200A, U+2028, U+2029, U+202F, U+205F and
  U+3000.
\<close>

definition space1 :: "char \<Rightarrow> bool" where
  "space1 a =
     (a \<in> set [CHR 0x09, CHR 0x0A, CHR 0x0B, CHR 0x0C, CHR 0x0D,
                CHR 0x1C, CHR 0x1D, CHR 0x1E, CHR 0x1F, CHR 0x20])"

definition space2 :: "char \<Rightarrow> char \<Rightarrow> bool" where
  "space2 a b = (a = CHR 0xC2 \<and> b \<in> set [CHR 0x85, CHR 0xA0])"

definition space3 :: "char \<Rightarrow> char \<Rightarrow> char \<Rightarrow> bool" where
  "space3 a b c =
     ((a = CHR 0xE1 \<and> b = CHR 0x9A \<and> c = CHR 0x80) \<or>
      (a = CHR 0xE2 \<and> b = CHR 0x80 \<and>
         c \<in> set [CHR 0x80, CHR 0x81, CHR 0x82, CHR 0x83, CHR 0x84, CHR 0x85, CHR 0x86,
                    CHR 0x87, CHR 0x88, CHR 0x89, CHR 0x8A, CHR 0xA8, CHR 0xA9, CHR 0xAF]) \<or>
      (a = CHR 0xE2 \<and> b = CHR 0x81 \<and> c = CHR 0x9F) \<or>
      (a = CHR 0xE3 \<and> b = CHR 0x80 \<and> c = CHR 0x80))"

fun lstrip :: "string \<Rightarrow> string" where
  "lstrip (a # b # c # s) =
     (if space1 a then lstrip (b # c # s)
      else if space2 a b then lstrip (c # s)
      else if space3 a b c then lstrip s
      else a # b # c # s)"
| "lstrip [a, b] = (if space1 a then lstrip [b] else if space2 a b then [] else [a, b])"
| "lstrip [a] = (if space1 a then [] else [a])"
| "lstrip [] = []"

text \<open>The same from the end, on the reversed string: \<open>c\<close> is the last byte.\<close>

fun rstrip_rev :: "string \<Rightarrow> string" where
  "rstrip_rev (c # b # a # s) =
     (if space1 c then rstrip_rev (b # a # s)
      else if space2 b c then rstrip_rev (a # s)
      else if space3 a b c then rstrip_rev s
      else c # b # a # s)"
| "rstrip_rev [c, b] = (if space1 c then rstrip_rev [b] else if space2 b c then [] else [c, b])"
| "rstrip_rev [c] = (if space1 c then [] else [c])"
| "rstrip_rev [] = []"

definition strip :: "string \<Rightarrow> string" where
  "strip s = rev (rstrip_rev (rev (lstrip s)))"

text \<open>\<^verbatim>\<open>str.encode()\<close>: the bytes of the UTF-8 encoding, which the string is made of.\<close>

definition encode :: "string \<Rightarrow> bytes" where
  "encode s = map of_char s"

text \<open>The loop of the \<^verbatim>\<open>except\<close> block over \<^verbatim>\<open>e.build_log\<close>.\<close>

fun log_build_log :: "log_entry list \<Rightarrow> 'x world \<Rightarrow> 'x world" where
  "log_build_log [] w = w"
| "log_build_log (log # logs) w =
     (case map_of log ''stream'' of
        None \<Rightarrow> log_build_log logs w
      | Some s \<Rightarrow>
          (if strip s \<noteq> [] then log_build_log logs (emit (LogError (strip s)) w)
           else log_build_log logs w))"

text \<open>
  \<^verbatim>\<open>"".join([d["stream"] for d in list(logs_raw) if "stream" in d])\<close>
\<close>

definition join_streams :: "log_entry list \<Rightarrow> string" where
  "join_streams logs_raw =
     concat [the (map_of d ''stream''). d \<leftarrow> logs_raw, map_of d ''stream'' \<noteq> None]"

definition env ::
  "'x runtime \<Rightarrow> path \<Rightarrow> string \<Rightarrow> string \<Rightarrow> path \<Rightarrow> string
     \<Rightarrow> 'x world \<Rightarrow> (error + HandlerRet) \<times> 'x world" where
  "env rt design name image_repo docker_dir dockerfile w =
     (let tag = image_repo @ '':'' @ name;
          w1 = emit (LogInfo (''Building image '' @ tag)) w;
          build_dir = joinpath rt (resolve rt design) docker_dir;
          dockerfile_name = joinpath rt build_dir dockerfile
      in case open_read rt dockerfile_name w1 of
           (Inl e, w2) \<Rightarrow> (Inl e, w2)
         | (Inr text, w2) \<Rightarrow>
             (case tar rt build_dir (''Dockerfile'', text) (files w2) of
                Inl e \<Rightarrow> (Inl e, emit (Tar build_dir) w2)
              | Inr context \<Rightarrow>
                  (case images_build rt tag context (ext w2) of
                     (Inl e, x) \<Rightarrow>
                       (let w3 = (emit (ImagesBuild tag) (emit (Tar build_dir) w2))\<lparr>ext := x\<rparr>
                        in case e of
                             BuildError msg build_log \<Rightarrow>
                               (Inl e, log_build_log build_log
                                  (emit (LogError (''Docker build error: '' @ msg)) w3))
                           | _ \<Rightarrow> (Inl e, w3))
                   | (Inr logs_raw, x) \<Rightarrow>
                       (let w3 = (emit (ImagesBuild tag) (emit (Tar build_dir) w2))\<lparr>ext := x\<rparr>;
                            w4 = emit (LogInfo (''Built image '' @ tag)) w3;
                            logs = join_streams logs_raw;
                            w5 = emit (LogDebug logs) w4
                        in (Inr (encode logs, []), w5)))))"

subsection \<open>Traces\<close>

text \<open>The events a call has added to the trace of the world it started from.\<close>

definition new_events :: "'x world \<Rightarrow> 'x world \<Rightarrow> event list" where
  "new_events w w' = drop (length (trace w)) (trace w')"

text \<open>The compile step: a call of \<^verbatim>\<open>run_shell\<close>.\<close>

fun is_run_shell :: "event \<Rightarrow> bool" where
  "is_run_shell (RunShell cmd) = True"
| "is_run_shell ev = False"

text \<open>
  The two file operations of \<^verbatim>\<open>package_device\<close>. Its first statement is a read, so a trace
  without a file access is a trace without a call of \<^verbatim>\<open>package_device\<close>.
\<close>

fun is_file_access :: "event \<Rightarrow> bool" where
  "is_file_access (ReadBytes p) = True"
| "is_file_access (WriteBytes p bs) = True"
| "is_file_access ev = False"

text \<open>What \<^verbatim>\<open>make_dev\<close> does after the compile step: log lines and the packaging.\<close>

fun packaging_event :: "event \<Rightarrow> bool" where
  "packaging_event (LogInfo msg) = True"
| "packaging_event (ReadBytes p) = True"
| "packaging_event (WriteBytes p bs) = True"
| "packaging_event ev = False"

text \<open>The calls that reach the container runtime or prepare its input.\<close>

fun is_container_call :: "event \<Rightarrow> bool" where
  "is_container_call (Tar p) = True"
| "is_container_call (ImagesBuild tag) = True"
| "is_container_call (RunShell cmd) = True"
| "is_container_call ev = False"

text \<open>
  The spec's reading of the build log, to compare \<open>join_streams\<close> with: all stream entries
  of the log, in order.
\<close>

fun spec_stream_entries :: "log_entry list \<Rightarrow> string list" where
  "spec_stream_entries [] = []"
| "spec_stream_entries (d # ds) =
     (case map_of d ''stream'' of
        None \<Rightarrow> spec_stream_entries ds
      | Some s \<Rightarrow> s # spec_stream_entries ds)"

subsection \<open>Example inputs\<close>

text \<open>
  The directories walked to reach an absolute path in its plain spelling: the root, then
  every prefix that ends before a slash.
\<close>

fun dirnames_from :: "string \<Rightarrow> string \<Rightarrow> string list" where
  "dirnames_from seen [] = []"
| "dirnames_from seen (c # cs) =
     (if c = CHR ''/''
      then (if seen = [] then ''/'' else seen) # dirnames_from (seen @ [c]) cs
      else dirnames_from (seen @ [c]) cs)"

definition dirnames :: "path \<Rightarrow> path list" where
  "dirnames p = dirnames_from [] p"

text \<open>
  A file system in which the binary of the car has a second spelling: the identity of
  \<^verbatim>\<open>/out/../out/car.bin\<close> is \<^verbatim>\<open>/out/car.bin\<close>, every other path is its own identity.
\<close>

definition plain_locate :: "path \<Rightarrow> path" where
  "plain_locate p = (if p = ''/out/../out/car.bin'' then ''/out/car.bin'' else p)"

definition plain_fs :: "(path \<Rightarrow> node option) \<Rightarrow> filesystem" where
  "plain_fs ns = \<lparr>nodes = ns, locate = plain_locate, traversed = (\<lambda>p. dirnames (plain_locate p))\<rparr>"

text \<open>
  A design directory with its Dockerfile and an output directory that holds the artifacts
  of a compiled car: a binary of four bytes and an EEPROM of two.
\<close>

definition example_files :: filesystem where
  "example_files = plain_fs
     [''/'' \<mapsto> Dir,
      ''/out'' \<mapsto> Dir,
      ''/out/car.bin'' \<mapsto> File [0x01, 0x02, 0x03, 0x04],
      ''/out/car.eeprom'' \<mapsto> File [0xAA, 0xBB],
      ''/design'' \<mapsto> Dir,
      ''/design/docker_env'' \<mapsto> Dir,
      ''/design/docker_env/build_image.Dockerfile'' \<mapsto> File []]"

definition example_world :: "unit world" where
  "example_world = \<lparr>files = example_files, ext = (), trace = []\<rparr>"

text \<open>The same artifacts elsewhere, in a world with a history and other files.\<close>

definition other_world :: "nat world" where
  "other_world =
     \<lparr>files = plain_fs
        [''/'' \<mapsto> Dir,
         ''/out'' \<mapsto> Dir,
         ''/out/car.bin'' \<mapsto> File [0x01, 0x02, 0x03, 0x04],
         ''/out/car.eeprom'' \<mapsto> File [0xAA, 0xBB],
         ''/out/car.img'' \<mapsto> File [0x00],
         ''/notes'' \<mapsto> File [0x2A]],
      ext = 5, trace = [LogInfo ''earlier'']\<rparr>"

text \<open>A world with the root directory and nothing in it.\<close>

definition empty_world :: "unit world" where
  "empty_world = \<lparr>files = plain_fs [''/'' \<mapsto> Dir], ext = (), trace = []\<rparr>"

text \<open>A world in which the design path is a regular file.\<close>

definition design_file_world :: "unit world" where
  "design_file_world =
     \<lparr>files = plain_fs [''/'' \<mapsto> Dir, ''/design'' \<mapsto> File [0x00]], ext = (), trace = []\<rparr>"

text \<open>A binary one byte longer than a flash region of 0x8000 bytes.\<close>

definition oversize_world :: "unit world" where
  "oversize_world =
     \<lparr>files = plain_fs
        [''/'' \<mapsto> Dir,
         ''/out'' \<mapsto> Dir,
         ''/out/car.bin'' \<mapsto> File (replicate 0x8001 0x00),
         ''/out/car.eeprom'' \<mapsto> File [0xAA, 0xBB]],
      ext = (), trace = []\<rparr>"

text \<open>
  A runtime whose paths are already resolved, whose container build answers with a log of
  three entries and whose compile step succeeds without touching anything; and the same
  runtime with a compile step that fails.
\<close>

definition example_runtime :: "unit runtime" where
  "example_runtime =
     \<lparr>resolve = (\<lambda>p. p),
      joinpath = (\<lambda>p q. p @ ''/'' @ q),
      decode = (\<lambda>bs. Inr (map (\<lambda>b. char_of (unat b)) bs)),
      tar = (\<lambda>dir df fs. Inr []),
      images_build = (\<lambda>tag fileobj x.
        (Inr [[(''stream'', ''Step 1/1'')],
              [(''aux'', ''sha256'')],
              [(''stream'', '' ok'')]], x)),
      run_shell = (\<lambda>cmd (fs, x). (Inr ([0x6F, 0x6B], []), fs, x)),
      FW_FLASH_SIZE = 0x8000,
      FW_EEPROM_SIZE = 0x800\<rparr>"

definition failing_runtime :: "unit runtime" where
  "failing_runtime =
     example_runtime\<lparr>run_shell := (\<lambda>cmd (fs, x). (Inl (ShellError 2 [] [0x65]), fs, x))\<rparr>"

section \<open>Properties\<close>

subsection \<open>The file system\<close>

lemma new_events_append: "trace w' = trace w @ evs \<Longrightarrow> new_events w w' = evs"
  by (simp add: new_events_def)

lemma walk_None_iff: "walk ns ds p = None \<longleftrightarrow> (\<forall>d \<in> set ds. ns d = Some Dir)"
  by (induction ds) (auto split: option.splits node.splits)

lemma walk_error_kind:
  "walk ns ds p = Some e \<Longrightarrow> e = FileNotFoundError p \<or> e = NotADirectoryError p"
  by (induction ds) (auto split: option.splits node.splits)

lemma walk_update:
  assumes "walk ns ds p = None" and "ns k \<noteq> Some Dir"
  shows "walk (ns(k \<mapsto> v)) ds p = None"
proof -
  have "ns d = Some Dir" if "d \<in> set ds" for d
    using assms(1) that by (simp add: walk_None_iff)
  then have "(ns(k \<mapsto> v)) d = Some Dir" if "d \<in> set ds" for d
    using assms(2) that by auto
  then show ?thesis
    by (simp add: walk_None_iff)
qed

lemma stat_error_kind:
  "stat fs p = Inl e \<Longrightarrow> e = FileNotFoundError p \<or> e = NotADirectoryError p"
  by (auto simp: stat_def path_error_def dest: walk_error_kind split: option.splits)

lemma read_file_Inr:
  "read_file fs p = Inr bs \<longleftrightarrow>
     path_error fs p = None \<and> nodes fs (locate fs p) = Some (File bs)"
  by (auto simp: read_file_def stat_def split: option.splits sum.splits node.splits)

lemma write_file_Inr:
  "write_file fs p bs = Inr fs' \<longleftrightarrow>
     path_error fs p = None \<and> nodes fs (locate fs p) \<noteq> Some Dir \<and>
     fs' = fs\<lparr>nodes := (nodes fs)(locate fs p \<mapsto> File bs)\<rparr>"
  by (auto simp: write_file_def split: option.splits node.splits)

lemma write_file_read_back:
  assumes "write_file fs p bs = Inr fs'"
  shows "read_file fs' p = Inr bs"
proof -
  have ok: "path_error fs p = None" "nodes fs (locate fs p) \<noteq> Some Dir"
    and fs': "fs' = fs\<lparr>nodes := (nodes fs)(locate fs p \<mapsto> File bs)\<rparr>"
    using assms by (simp_all add: write_file_Inr)
  have "path_error fs' p = None"
    using ok by (simp add: fs' path_error_def walk_update)
  then show ?thesis
    by (simp add: read_file_Inr fs')
qed

lemma write_file_other:
  assumes "write_file fs p bs = Inr fs'" and "read_file fs q = Inr c"
    and "locate fs q \<noteq> locate fs p"
  shows "read_file fs' q = Inr c"
proof -
  have ok: "nodes fs (locate fs p) \<noteq> Some Dir"
    and fs': "fs' = fs\<lparr>nodes := (nodes fs)(locate fs p \<mapsto> File bs)\<rparr>"
    using assms(1) by (simp_all add: write_file_Inr)
  have q: "path_error fs q = None" "nodes fs (locate fs q) = Some (File c)"
    using assms(2) by (simp_all add: read_file_Inr)
  have "path_error fs' q = None"
    using q(1) ok by (simp add: fs' path_error_def walk_update)
  then show ?thesis
    using q(2) assms(3) by (simp add: read_file_Inr fs')
qed

subsection \<open>package\_device\<close>

text \<open>A call that has read both files is the write of the image.\<close>

lemma package_device_reads:
  assumes "read_file (files w) bin_path = Inr b" and "read_file (files w) eeprom_path = Inr e"
  shows "package_device F E bin_path eeprom_path image_path w =
    write_bytes image_path (ljust b F 0xFF @ ljust e E 0xFF)
      (emit (ReadBytes eeprom_path) (emit (ReadBytes bin_path) w))"
  using assms by (simp add: package_device_def read_bytes_def emit_def Let_def)

lemma package_device_success:
  assumes "fst (package_device F E bin_path eeprom_path image_path w) = Inr ()"
  shows "\<exists>b e. read_file (files w) bin_path = Inr b \<and> read_file (files w) eeprom_path = Inr e \<and>
     write_file (files w) image_path (ljust b F 0xFF @ ljust e E 0xFF)
       = Inr (files (snd (package_device F E bin_path eeprom_path image_path w)))"
  using assms
  by (auto simp: package_device_def read_bytes_def write_bytes_def emit_def Let_def
      split: sum.splits)

lemma package_device_files:
  "files (snd (package_device F E bin_path eeprom_path image_path w)) = files w \<or>
   (\<exists>d. write_file (files w) image_path d
      = Inr (files (snd (package_device F E bin_path eeprom_path image_path w))))"
  by (auto simp: package_device_def read_bytes_def write_bytes_def emit_def Let_def
      split: sum.splits)

lemma package_device_ext:
  "ext (snd (package_device F E bin_path eeprom_path image_path w)) = ext w"
  by (auto simp: package_device_def read_bytes_def write_bytes_def emit_def Let_def
      split: sum.splits)

lemma package_device_trace:
  "\<exists>evs. trace (snd (package_device F E bin_path eeprom_path image_path w)) = trace w @ evs \<and>
     (evs = [ReadBytes bin_path] \<or> evs = [ReadBytes bin_path, ReadBytes eeprom_path] \<or>
      (\<exists>d. evs = [ReadBytes bin_path, ReadBytes eeprom_path, WriteBytes image_path d]))"
  by (auto simp: package_device_def read_bytes_def write_bytes_def emit_def Let_def
      split: sum.splits)

text \<open>
  C1 (as amended). The source has no size check and no error for an image that is too
  large: \<^verbatim>\<open>ljust\<close> returns an input that is longer than its region as it is. When the
  binary is longer than the flash region or the EEPROM contents are longer than the EEPROM
  region, the call is the write of the image \<open>d\<close> to the image path, as for any other
  inputs: it requests that write after the two reads and raises only what the write
  raises. In \<open>d\<close> an input within its region is padded with 0xFF and a longer input is
  kept whole, so \<open>d\<close> is longer than the two regions together; it is the file at the image
  path when the call returns normally.
\<close>

theorem package_device_oversize_written:
  assumes "read_file (files w) bin_path = Inr b" and "read_file (files w) eeprom_path = Inr e"
    and "F < length b \<or> E < length e"
  shows "let d = (if F < length b then b else b @ replicate (F - length b) 0xFF)
               @ (if E < length e then e else e @ replicate (E - length e) 0xFF);
             r = package_device F E bin_path eeprom_path image_path w
         in F + E < length d \<and>
            r = write_bytes image_path d
                  (emit (ReadBytes eeprom_path) (emit (ReadBytes bin_path) w)) \<and>
            new_events w (snd r)
              = [ReadBytes bin_path, ReadBytes eeprom_path, WriteBytes image_path d] \<and>
            (fst r = Inr () \<longrightarrow> read_file (files (snd r)) image_path = Inr d)"
proof -
  define d where "d = (if F < length b then b else b @ replicate (F - length b) 0xFF)
               @ (if E < length e then e else e @ replicate (E - length e) 0xFF)"
  define r where "r = package_device F E bin_path eeprom_path image_path w"
  have d: "d = ljust b F 0xFF @ ljust e E 0xFF"
    by (simp add: d_def ljust_def)
  have long: "F + E < length d"
    using assms(3) by (auto simp: d_def)
  have r: "r = write_bytes image_path d
                  (emit (ReadBytes eeprom_path) (emit (ReadBytes bin_path) w))"
    unfolding r_def d by (rule package_device_reads [OF assms(1,2)])
  have "trace (snd r) = trace w
      @ [ReadBytes bin_path, ReadBytes eeprom_path, WriteBytes image_path d]"
    by (simp add: r write_bytes_def emit_def split: sum.splits)
  then have evs: "new_events w (snd r)
      = [ReadBytes bin_path, ReadBytes eeprom_path, WriteBytes image_path d]"
    by (rule new_events_append)
  have read_back: "read_file (files (snd r)) image_path = Inr d" if ok: "fst r = Inr ()"
  proof -
    obtain b' e' where "read_file (files w) bin_path = Inr b'"
      "read_file (files w) eeprom_path = Inr e'"
      "write_file (files w) image_path (ljust b' F 0xFF @ ljust e' E 0xFF) = Inr (files (snd r))"
      using package_device_success [OF ok [unfolded r_def]] unfolding r_def by blast
    then have "write_file (files w) image_path d = Inr (files (snd r))"
      using assms(1,2) by (simp add: d)
    then show ?thesis by (rule write_file_read_back)
  qed
  show ?thesis
    using long r evs read_back
    unfolding Let_def d_def [symmetric] r_def [symmetric] by blast
qed

theorem package_device_oversize_written_witness:
  "fst (package_device 0x8000 0x800 ''/out/car.bin'' ''/out/car.eeprom'' ''/out/car.img''
          oversize_world) = Inr () \<and>
   read_file (files (snd (package_device 0x8000 0x800 ''/out/car.bin'' ''/out/car.eeprom''
          ''/out/car.img'' oversize_world))) ''/out/car.img''
     = Inr (replicate 0x8001 0x00 @ [0xAA, 0xBB] @ replicate 0x7FE 0xFF)"
proof -
  have b: "read_file (files oversize_world) ''/out/car.bin'' = Inr (replicate 0x8001 0x00)"
    and e: "read_file (files oversize_world) ''/out/car.eeprom'' = Inr [0xAA, 0xBB]"
    by (simp_all add: read_file_def stat_def path_error_def oversize_world_def plain_fs_def
        plain_locate_def dirnames_def)
  have ok: "fst (write_bytes ''/out/car.img''
        (replicate 0x8001 0x00 @ [0xAA, 0xBB] @ replicate 0x7FE 0xFF)
        (emit (ReadBytes ''/out/car.eeprom'') (emit (ReadBytes ''/out/car.bin'') oversize_world)))
      = Inr ()"
    by (simp add: write_bytes_def write_file_def path_error_def emit_def oversize_world_def
        plain_fs_def plain_locate_def dirnames_def)
  note inst = package_device_oversize_written [OF b e, of "0x8000" "0x800" "''/out/car.img''",
      unfolded Let_def]
  have run: "package_device 0x8000 0x800 ''/out/car.bin'' ''/out/car.eeprom'' ''/out/car.img''
      oversize_world
    = write_bytes ''/out/car.img'' (replicate 0x8001 0x00 @ [0xAA, 0xBB] @ replicate 0x7FE 0xFF)
        (emit (ReadBytes ''/out/car.eeprom'') (emit (ReadBytes ''/out/car.bin'') oversize_world))"
    using inst [THEN conjunct2, THEN conjunct1] by simp
  have returns: "fst (package_device 0x8000 0x800 ''/out/car.bin'' ''/out/car.eeprom''
      ''/out/car.img'' oversize_world) = Inr ()"
    by (simp only: run ok)
  moreover have "read_file (files (snd (package_device 0x8000 0x800 ''/out/car.bin''
      ''/out/car.eeprom'' ''/out/car.img'' oversize_world))) ''/out/car.img''
     = Inr (replicate 0x8001 0x00 @ [0xAA, 0xBB] @ replicate 0x7FE 0xFF)"
    using inst [THEN conjunct2, THEN conjunct2, THEN conjunct2] returns by simp
  ultimately show ?thesis
    by simp
qed

text \<open>
  The claim as stated fails: with a flash region of 0x8000 bytes and a binary of 0x8001
  bytes the call returns normally and has written to the image path.
\<close>

theorem package_device_oversize_counterexample:
  "fst (package_device 0x8000 0x800 ''/out/car.bin'' ''/out/car.eeprom'' ''/out/car.img''
          oversize_world) = Inr () \<and>
   new_events oversize_world
     (snd (package_device 0x8000 0x800 ''/out/car.bin'' ''/out/car.eeprom'' ''/out/car.img''
          oversize_world))
     = [ReadBytes ''/out/car.bin'', ReadBytes ''/out/car.eeprom'',
        WriteBytes ''/out/car.img'' (replicate 0x8001 0x00 @ [0xAA, 0xBB] @ replicate 0x7FE 0xFF)]"
proof -
  have b: "read_file (files oversize_world) ''/out/car.bin'' = Inr (replicate 0x8001 0x00)"
    and e: "read_file (files oversize_world) ''/out/car.eeprom'' = Inr [0xAA, 0xBB]"
    by (simp_all add: read_file_def stat_def path_error_def oversize_world_def plain_fs_def
        plain_locate_def dirnames_def)
  have "package_device 0x8000 0x800 ''/out/car.bin'' ''/out/car.eeprom'' ''/out/car.img''
      oversize_world
    = write_bytes ''/out/car.img''
        (ljust (replicate 0x8001 0x00) 0x8000 0xFF @ ljust [0xAA, 0xBB] 0x800 0xFF)
        (emit (ReadBytes ''/out/car.eeprom'') (emit (ReadBytes ''/out/car.bin'') oversize_world))"
    by (rule package_device_reads [OF b e])
  then show ?thesis
    by (simp add: ljust_def new_events_def write_bytes_def write_file_def path_error_def
        emit_def oversize_world_def plain_fs_def plain_locate_def dirnames_def)
qed

text \<open>
  C2. When the binary fits the flash region, the EEPROM contents fit the EEPROM region and
  the call returns normally (the write to the image path has succeeded), the file at the
  image path is \<open>d\<close>: \<open>FLASH_SIZE + EEPROM_SIZE\<close> bytes long, the binary first, then
  0xFF up to \<open>FLASH_SIZE\<close>, then the EEPROM contents, then 0xFF to the end.
\<close>

theorem package_device_layout:
  assumes "read_file (files w) bin_path = Inr b" and "read_file (files w) eeprom_path = Inr e"
    and "length b \<le> F" and "length e \<le> E"
    and "fst (package_device F E bin_path eeprom_path image_path w) = Inr ()"
  shows "\<exists>d. read_file (files (snd (package_device F E bin_path eeprom_path image_path w)))
               image_path = Inr d \<and>
    WriteBytes image_path d
      \<in> set (new_events w (snd (package_device F E bin_path eeprom_path image_path w))) \<and>
    length d = F + E \<and>
    take (length b) d = b \<and>
    take (F - length b) (drop (length b) d) = replicate (F - length b) 0xFF \<and>
    take (length e) (drop F d) = e \<and>
    drop (F + length e) d = replicate (E - length e) 0xFF \<and>
    d = b @ replicate (F - length b) 0xFF @ e @ replicate (E - length e) 0xFF"
proof -
  let ?r = "package_device F E bin_path eeprom_path image_path w"
  let ?d = "ljust b F 0xFF @ ljust e E 0xFF"
  obtain b' e' where "read_file (files w) bin_path = Inr b'"
    "read_file (files w) eeprom_path = Inr e'"
    "write_file (files w) image_path (ljust b' F 0xFF @ ljust e' E 0xFF) = Inr (files (snd ?r))"
    using package_device_success [OF assms(5)] by blast
  then have "write_file (files w) image_path ?d = Inr (files (snd ?r))"
    using assms(1,2) by simp
  then have on_disk: "read_file (files (snd ?r)) image_path = Inr ?d"
    by (rule write_file_read_back)
  have "?r = write_bytes image_path ?d
      (emit (ReadBytes eeprom_path) (emit (ReadBytes bin_path) w))"
    by (rule package_device_reads [OF assms(1,2)])
  then have "trace (snd ?r) = trace w
      @ [ReadBytes bin_path, ReadBytes eeprom_path, WriteBytes image_path ?d]"
    by (simp add: write_bytes_def emit_def split: sum.splits)
  then have "new_events w (snd ?r)
      = [ReadBytes bin_path, ReadBytes eeprom_path, WriteBytes image_path ?d]"
    by (rule new_events_append)
  then have written: "WriteBytes image_path ?d \<in> set (new_events w (snd ?r))"
    by simp
  show ?thesis
    using on_disk written assms(3,4) by (simp add: ljust_def)
qed

text \<open>The scenario of the spec: regions of 0x8000 and 0x800 bytes, four and two bytes in.\<close>

theorem package_device_layout_witness:
  "read_file (files (snd (package_device 0x8000 0x800 ''/out/car.bin'' ''/out/car.eeprom''
          ''/out/car.img'' example_world))) ''/out/car.img''
     = Inr ([0x01, 0x02, 0x03, 0x04] @ replicate 0x7FFC 0xFF @ [0xAA, 0xBB] @ replicate 0x7FE 0xFF)"
proof -
  have b: "read_file (files example_world) ''/out/car.bin'' = Inr [0x01, 0x02, 0x03, 0x04]"
    and e: "read_file (files example_world) ''/out/car.eeprom'' = Inr [0xAA, 0xBB]"
    by (simp_all add: read_file_def stat_def path_error_def example_world_def example_files_def
        plain_fs_def plain_locate_def dirnames_def)
  have "package_device 0x8000 0x800 ''/out/car.bin'' ''/out/car.eeprom'' ''/out/car.img''
      example_world
    = write_bytes ''/out/car.img''
        (ljust [0x01, 0x02, 0x03, 0x04] 0x8000 0xFF @ ljust [0xAA, 0xBB] 0x800 0xFF)
        (emit (ReadBytes ''/out/car.eeprom'') (emit (ReadBytes ''/out/car.bin'') example_world))"
    by (rule package_device_reads [OF b e])
  then have ok: "fst (package_device 0x8000 0x800 ''/out/car.bin'' ''/out/car.eeprom''
      ''/out/car.img'' example_world) = Inr ()"
    by (simp add: write_bytes_def write_file_def path_error_def emit_def example_world_def
        example_files_def plain_fs_def plain_locate_def dirnames_def)
  from package_device_layout [OF b e _ _ ok] show ?thesis
    by simp
qed

text \<open>
  C8. The image depends on the contents of the two input files only. Two calls with the
  same three paths, in worlds in which the reads of the binary path and of the EEPROM path
  give the same and which differ in anything else (other files, the old image, the state
  outside the process, the trace), leave the same file at the image path when they return
  normally: the two contents, each padded with 0xFF when it is within its region. And a
  second call after the first returns normally and leaves the file system
  as the first call left it, when the image path names another file than the two inputs.
\<close>

theorem package_device_idempotent:
  assumes "read_file (files w1) bin_path = read_file (files w2) bin_path"
    and "read_file (files w1) eeprom_path = read_file (files w2) eeprom_path"
    and "fst (package_device F E bin_path eeprom_path image_path w1) = Inr ()"
    and "fst (package_device F E bin_path eeprom_path image_path w2) = Inr ()"
  shows "read_file (files (snd (package_device F E bin_path eeprom_path image_path w1))) image_path
       = read_file (files (snd (package_device F E bin_path eeprom_path image_path w2))) image_path
     \<and>
     (\<exists>b e. read_file (files w1) bin_path = Inr b \<and> read_file (files w1) eeprom_path = Inr e \<and>
        read_file (files (snd (package_device F E bin_path eeprom_path image_path w1))) image_path
          = Inr ((if F < length b then b else b @ replicate (F - length b) 0xFF)
               @ (if E < length e then e else e @ replicate (E - length e) 0xFF))) \<and>
     (locate (files w1) image_path \<noteq> locate (files w1) bin_path \<and>
      locate (files w1) image_path \<noteq> locate (files w1) eeprom_path \<longrightarrow>
        fst (package_device F E bin_path eeprom_path image_path
               (snd (package_device F E bin_path eeprom_path image_path w1))) = Inr () \<and>
        files (snd (package_device F E bin_path eeprom_path image_path
               (snd (package_device F E bin_path eeprom_path image_path w1))))
          = files (snd (package_device F E bin_path eeprom_path image_path w1)))"
proof -
  let ?r1 = "package_device F E bin_path eeprom_path image_path w1"
  let ?r2 = "package_device F E bin_path eeprom_path image_path w2"
  obtain b e where in1: "read_file (files w1) bin_path = Inr b"
    "read_file (files w1) eeprom_path = Inr e"
    and wr1: "write_file (files w1) image_path (ljust b F 0xFF @ ljust e E 0xFF)
      = Inr (files (snd ?r1))"
    using package_device_success [OF assms(3)] by blast
  let ?d = "ljust b F 0xFF @ ljust e E 0xFF"
  obtain b' e' where "read_file (files w2) bin_path = Inr b'"
    "read_file (files w2) eeprom_path = Inr e'"
    "write_file (files w2) image_path (ljust b' F 0xFF @ ljust e' E 0xFF) = Inr (files (snd ?r2))"
    using package_device_success [OF assms(4)] by blast
  then have wr2: "write_file (files w2) image_path ?d = Inr (files (snd ?r2))"
    using in1 assms(1,2) by simp
  have same: "read_file (files (snd ?r1)) image_path = read_file (files (snd ?r2)) image_path"
    using write_file_read_back [OF wr1] write_file_read_back [OF wr2] by simp
  have "read_file (files (snd ?r1)) image_path
      = Inr ((if F < length b then b else b @ replicate (F - length b) 0xFF)
           @ (if E < length e then e else e @ replicate (E - length e) 0xFF))"
    using write_file_read_back [OF wr1] by (simp add: ljust_def)
  then have content: "\<exists>b e. read_file (files w1) bin_path = Inr b \<and>
      read_file (files w1) eeprom_path = Inr e \<and>
      read_file (files (snd ?r1)) image_path
        = Inr ((if F < length b then b else b @ replicate (F - length b) 0xFF)
             @ (if E < length e then e else e @ replicate (E - length e) 0xFF))"
    using in1 by blast
  have again: "fst (package_device F E bin_path eeprom_path image_path (snd ?r1)) = Inr () \<and>
      files (snd (package_device F E bin_path eeprom_path image_path (snd ?r1)))
        = files (snd ?r1)"
    if ne: "locate (files w1) image_path \<noteq> locate (files w1) bin_path"
      "locate (files w1) image_path \<noteq> locate (files w1) eeprom_path"
  proof -
    have fs1: "files (snd ?r1)
        = (files w1)\<lparr>nodes := (nodes (files w1))(locate (files w1) image_path \<mapsto> File ?d)\<rparr>"
      using wr1 by (simp add: write_file_Inr)
    have b: "read_file (files (snd ?r1)) bin_path = Inr b"
      using wr1 in1(1) ne(1) by (rule write_file_other [OF _ _ not_sym])
    have e: "read_file (files (snd ?r1)) eeprom_path = Inr e"
      using wr1 in1(2) ne(2) by (rule write_file_other [OF _ _ not_sym])
    have img: "read_file (files (snd ?r1)) image_path = Inr ?d"
      using wr1 by (rule write_file_read_back)
    have "write_file (files (snd ?r1)) image_path ?d = Inr (files (snd ?r1))"
      using img by (simp add: write_file_Inr read_file_Inr fs1)
    then show ?thesis
      by (simp add: package_device_reads [OF b e] write_bytes_def emit_def)
  qed
  show ?thesis using same content again by blast
qed

theorem package_device_idempotent_witness:
  "read_file (files (snd (package_device 0x8000 0x800 ''/out/car.bin'' ''/out/car.eeprom''
          ''/out/car.img'' example_world))) ''/out/car.img''
     = read_file (files (snd (package_device 0x8000 0x800 ''/out/car.bin'' ''/out/car.eeprom''
          ''/out/car.img'' other_world))) ''/out/car.img'' \<and>
   files (snd (package_device 0x8000 0x800 ''/out/car.bin'' ''/out/car.eeprom'' ''/out/car.img''
          (snd (package_device 0x8000 0x800 ''/out/car.bin'' ''/out/car.eeprom'' ''/out/car.img''
             example_world))))
     = files (snd (package_device 0x8000 0x800 ''/out/car.bin'' ''/out/car.eeprom''
          ''/out/car.img'' example_world))"
proof -
  have in1: "read_file (files example_world) ''/out/car.bin'' = Inr [0x01, 0x02, 0x03, 0x04]"
    "read_file (files example_world) ''/out/car.eeprom'' = Inr [0xAA, 0xBB]"
    by (simp_all add: read_file_def stat_def path_error_def example_world_def example_files_def
        plain_fs_def plain_locate_def dirnames_def)
  have in2: "read_file (files other_world) ''/out/car.bin'' = Inr [0x01, 0x02, 0x03, 0x04]"
    "read_file (files other_world) ''/out/car.eeprom'' = Inr [0xAA, 0xBB]"
    by (simp_all add: read_file_def stat_def path_error_def other_world_def
        plain_fs_def plain_locate_def dirnames_def)
  have "package_device 0x8000 0x800 ''/out/car.bin'' ''/out/car.eeprom'' ''/out/car.img''
      example_world
    = write_bytes ''/out/car.img''
        (ljust [0x01, 0x02, 0x03, 0x04] 0x8000 0xFF @ ljust [0xAA, 0xBB] 0x800 0xFF)
        (emit (ReadBytes ''/out/car.eeprom'') (emit (ReadBytes ''/out/car.bin'') example_world))"
    by (rule package_device_reads [OF in1])
  then have ok1: "fst (package_device 0x8000 0x800 ''/out/car.bin'' ''/out/car.eeprom''
      ''/out/car.img'' example_world) = Inr ()"
    by (simp add: write_bytes_def write_file_def path_error_def emit_def example_world_def
        example_files_def plain_fs_def plain_locate_def dirnames_def)
  have "package_device 0x8000 0x800 ''/out/car.bin'' ''/out/car.eeprom'' ''/out/car.img''
      other_world
    = write_bytes ''/out/car.img''
        (ljust [0x01, 0x02, 0x03, 0x04] 0x8000 0xFF @ ljust [0xAA, 0xBB] 0x800 0xFF)
        (emit (ReadBytes ''/out/car.eeprom'') (emit (ReadBytes ''/out/car.bin'') other_world))"
    by (rule package_device_reads [OF in2])
  then have ok2: "fst (package_device 0x8000 0x800 ''/out/car.bin'' ''/out/car.eeprom''
      ''/out/car.img'' other_world) = Inr ()"
    by (simp add: write_bytes_def write_file_def path_error_def emit_def other_world_def
        plain_fs_def plain_locate_def dirnames_def)
  have same: "read_file (files example_world) ''/out/car.bin''
      = read_file (files other_world) ''/out/car.bin''"
    "read_file (files example_world) ''/out/car.eeprom''
      = read_file (files other_world) ''/out/car.eeprom''"
    by (simp_all add: in1 in2)
  have ne: "locate (files example_world) ''/out/car.img''
      \<noteq> locate (files example_world) ''/out/car.bin''"
    "locate (files example_world) ''/out/car.img''
      \<noteq> locate (files example_world) ''/out/car.eeprom''"
    by (simp_all add: example_world_def example_files_def plain_fs_def plain_locate_def)
  from package_device_idempotent [OF same ok1 ok2] ne show ?thesis
    by blast
qed

text \<open>
  C10 (as amended). In every call the state outside the process, the naming of files and
  every file but the one the image path names are left as they were, and the call requests
  a read of the binary, then a read of the EEPROM contents, then at most one write, to the
  image path, of the whole image. So a read of the binary path, or of the EEPROM path,
  gives after the call what it gave before, whenever the image path does not name the
  same file as that path, under this or any other spelling.
\<close>

theorem package_device_frame_effect:
  "let r = package_device F E bin_path eeprom_path image_path w;
       image_file = locate (files w) image_path
   in (\<forall>k. k \<noteq> image_file \<longrightarrow> nodes (files (snd r)) k = nodes (files w) k) \<and>
      locate (files (snd r)) = locate (files w) \<and>
      traversed (files (snd r)) = traversed (files w) \<and>
      ext (snd r) = ext w \<and>
      (new_events w (snd r) = [ReadBytes bin_path] \<or>
       new_events w (snd r) = [ReadBytes bin_path, ReadBytes eeprom_path] \<or>
       (\<exists>d. new_events w (snd r)
          = [ReadBytes bin_path, ReadBytes eeprom_path, WriteBytes image_path d])) \<and>
      (locate (files w) bin_path \<noteq> image_file \<longrightarrow>
         read_file (files (snd r)) bin_path = read_file (files w) bin_path) \<and>
      (locate (files w) eeprom_path \<noteq> image_file \<longrightarrow>
         read_file (files (snd r)) eeprom_path = read_file (files w) eeprom_path)"
proof -
  define r where "r = package_device F E bin_path eeprom_path image_path w"
  define image_file where "image_file = locate (files w) image_path"
  obtain evs where evs: "trace (snd r) = trace w @ evs"
    "evs = [ReadBytes bin_path] \<or> evs = [ReadBytes bin_path, ReadBytes eeprom_path] \<or>
      (\<exists>d. evs = [ReadBytes bin_path, ReadBytes eeprom_path, WriteBytes image_path d])"
    using package_device_trace unfolding r_def by blast
  have "new_events w (snd r) = evs"
    using evs(1) by (rule new_events_append)
  then have events: "new_events w (snd r) = [ReadBytes bin_path] \<or>
       new_events w (snd r) = [ReadBytes bin_path, ReadBytes eeprom_path] \<or>
       (\<exists>d. new_events w (snd r)
          = [ReadBytes bin_path, ReadBytes eeprom_path, WriteBytes image_path d])"
    using evs(2) by simp
  have cases: "files (snd r) = files w \<or>
      (\<exists>d. write_file (files w) image_path d = Inr (files (snd r)))"
    unfolding r_def by (rule package_device_files)
  have frame: "(\<forall>k. k \<noteq> image_file \<longrightarrow> nodes (files (snd r)) k = nodes (files w) k) \<and>
      locate (files (snd r)) = locate (files w) \<and>
      traversed (files (snd r)) = traversed (files w)"
    using cases by (auto simp: write_file_Inr image_file_def)
  have inputs: "read_file (files (snd r)) q = read_file (files w) q"
    if q: "q = bin_path \<or> q = eeprom_path" and ne: "locate (files w) q \<noteq> image_file" for q
  proof (cases "fst r = Inr ()")
    case True
    then obtain b e where reads: "read_file (files w) bin_path = Inr b"
      "read_file (files w) eeprom_path = Inr e"
      and wr: "write_file (files w) image_path (ljust b F 0xFF @ ljust e E 0xFF)
        = Inr (files (snd r))"
      using package_device_success unfolding r_def by blast
    obtain c where c: "read_file (files w) q = Inr c"
      using q reads by auto
    have "read_file (files (snd r)) q = Inr c"
      using wr c ne unfolding image_file_def by (rule write_file_other)
    then show ?thesis by (simp add: c)
  next
    case False
    then have "files (snd r) = files w"
      unfolding r_def
      by (auto simp: package_device_def read_bytes_def write_bytes_def emit_def Let_def
          split: sum.splits)
    then show ?thesis by simp
  qed
  show ?thesis
    using frame events inputs
    unfolding Let_def r_def [symmetric] image_file_def [symmetric]
    by (simp add: r_def package_device_ext)
qed

theorem package_device_frame_effect_witness:
  "read_file (files (snd (package_device 0x8000 0x800 ''/out/car.bin'' ''/out/car.eeprom''
          ''/out/car.img'' example_world))) ''/out/car.bin'' = Inr [0x01, 0x02, 0x03, 0x04] \<and>
   read_file (files (snd (package_device 0x8000 0x800 ''/out/car.bin'' ''/out/car.eeprom''
          ''/out/car.img'' example_world))) ''/out/car.eeprom'' = Inr [0xAA, 0xBB]"
proof -
  have b: "read_file (files example_world) ''/out/car.bin'' = Inr [0x01, 0x02, 0x03, 0x04]"
    and e: "read_file (files example_world) ''/out/car.eeprom'' = Inr [0xAA, 0xBB]"
    by (simp_all add: read_file_def stat_def path_error_def example_world_def example_files_def
        plain_fs_def plain_locate_def dirnames_def)
  have ne: "locate (files example_world) ''/out/car.bin''
      \<noteq> locate (files example_world) ''/out/car.img''"
    "locate (files example_world) ''/out/car.eeprom''
      \<noteq> locate (files example_world) ''/out/car.img''"
    by (simp_all add: example_world_def example_files_def plain_fs_def plain_locate_def)
  note inst = package_device_frame_effect [of "0x8000" "0x800" "''/out/car.bin''"
      "''/out/car.eeprom''" "''/out/car.img''" example_world, unfolded Let_def]
  from inst ne show ?thesis
    by (simp add: b e)
qed

text \<open>
  The claim as stated fails when the image path is the binary path: the call overwrites
  the binary it has read with the image.
\<close>

theorem package_device_frame_counterexample:
  "read_file (files example_world) ''/out/car.bin'' = Inr [0x01, 0x02, 0x03, 0x04] \<and>
   read_file (files (snd (package_device 0x8000 0x800 ''/out/car.bin'' ''/out/car.eeprom''
          ''/out/car.bin'' example_world))) ''/out/car.bin''
     = Inr ([0x01, 0x02, 0x03, 0x04] @ replicate 0x7FFC 0xFF @ [0xAA, 0xBB] @ replicate 0x7FE 0xFF) \<and>
   read_file (files (snd (package_device 0x8000 0x800 ''/out/car.bin'' ''/out/car.eeprom''
          ''/out/car.bin'' example_world))) ''/out/car.bin''
     \<noteq> read_file (files example_world) ''/out/car.bin''"
proof -
  have b: "read_file (files example_world) ''/out/car.bin'' = Inr [0x01, 0x02, 0x03, 0x04]"
    and e: "read_file (files example_world) ''/out/car.eeprom'' = Inr [0xAA, 0xBB]"
    by (simp_all add: read_file_def stat_def path_error_def example_world_def example_files_def
        plain_fs_def plain_locate_def dirnames_def)
  have "package_device 0x8000 0x800 ''/out/car.bin'' ''/out/car.eeprom'' ''/out/car.bin''
      example_world
    = write_bytes ''/out/car.bin''
        (ljust [0x01, 0x02, 0x03, 0x04] 0x8000 0xFF @ ljust [0xAA, 0xBB] 0x800 0xFF)
        (emit (ReadBytes ''/out/car.eeprom'') (emit (ReadBytes ''/out/car.bin'') example_world))"
    by (rule package_device_reads [OF b e])
  then have "read_file (files (snd (package_device 0x8000 0x800 ''/out/car.bin''
      ''/out/car.eeprom'' ''/out/car.bin'' example_world))) ''/out/car.bin''
     = Inr ([0x01, 0x02, 0x03, 0x04] @ replicate 0x7FFC 0xFF @ [0xAA, 0xBB] @ replicate 0x7FE 0xFF)"
    by (simp add: ljust_def write_bytes_def write_file_def read_file_def stat_def path_error_def
        emit_def example_world_def example_files_def plain_fs_def plain_locate_def dirnames_def)
  then show ?thesis
    by (simp add: b)
qed

text \<open>
  The same happens under another spelling of the binary path, which the amended claim
  excludes with the binary path itself.
\<close>

lemma package_device_overwrites_under_other_spelling:
  "locate (files example_world) ''/out/../out/car.bin''
     = locate (files example_world) ''/out/car.bin'' \<and>
   read_file (files (snd (package_device 0x8000 0x800 ''/out/car.bin'' ''/out/car.eeprom''
          ''/out/../out/car.bin'' example_world))) ''/out/car.bin''
     = Inr ([0x01, 0x02, 0x03, 0x04] @ replicate 0x7FFC 0xFF @ [0xAA, 0xBB] @ replicate 0x7FE 0xFF)"
proof -
  have b: "read_file (files example_world) ''/out/car.bin'' = Inr [0x01, 0x02, 0x03, 0x04]"
    and e: "read_file (files example_world) ''/out/car.eeprom'' = Inr [0xAA, 0xBB]"
    by (simp_all add: read_file_def stat_def path_error_def example_world_def example_files_def
        plain_fs_def plain_locate_def dirnames_def)
  have "package_device 0x8000 0x800 ''/out/car.bin'' ''/out/car.eeprom'' ''/out/../out/car.bin''
      example_world
    = write_bytes ''/out/../out/car.bin''
        (ljust [0x01, 0x02, 0x03, 0x04] 0x8000 0xFF @ ljust [0xAA, 0xBB] 0x800 0xFF)
        (emit (ReadBytes ''/out/car.eeprom'') (emit (ReadBytes ''/out/car.bin'') example_world))"
    by (rule package_device_reads [OF b e])
  then show ?thesis
    by (simp add: ljust_def write_bytes_def write_file_def read_file_def stat_def path_error_def
        emit_def example_world_def example_files_def plain_fs_def plain_locate_def dirnames_def)
qed

subsection \<open>make\_dev\<close>

text \<open>The output directory block: nothing when the path exists, else a log line and \<^verbatim>\<open>mkdir\<close>.\<close>

lemma create_output_directory_cases:
  "create_output_directory tag deployment d w =
     (if path_exists d w then (Inr (), w)
      else (case make_directory (files w) d of
              Inl e \<Rightarrow>
                (Inl e, w\<lparr>trace := trace w @ [LogInfo (tag @ '':'' @ deployment
                           @ '': Making output directory '' @ d), Mkdir d]\<rparr>)
            | Inr fs \<Rightarrow>
                (Inr (), w\<lparr>files := fs,
                           trace := trace w @ [LogInfo (tag @ '':'' @ deployment
                             @ '': Making output directory '' @ d), Mkdir d]\<rparr>)))"
  by (simp add: create_output_directory_def mkdir_def emit_def split: sum.splits)

lemma trace_create_output_directory:
  "trace (snd (create_output_directory tag deployment d w)) = trace w @
     (if path_exists d w then []
      else [LogInfo (tag @ '':'' @ deployment @ '': Making output directory '' @ d), Mkdir d])"
  by (simp add: create_output_directory_cases split: sum.splits)

lemma create_output_directory_raises:
  assumes "fst (create_output_directory tag deployment d w) = Inl e"
  shows "\<not> path_exists d w \<and> files (snd (create_output_directory tag deployment d w)) = files w \<and>
     ext (snd (create_output_directory tag deployment d w)) = ext w"
  using assms by (auto simp: create_output_directory_cases split: if_splits sum.splits)

lemma make_directory_Inr:
  "make_directory fs p = Inr fs' \<longleftrightarrow>
     path_error fs p = None \<and> nodes fs (locate fs p) = None \<and>
     fs' = fs\<lparr>nodes := (nodes fs)(locate fs p \<mapsto> Dir)\<rparr>"
  by (auto simp: make_directory_def split: option.splits)

lemma make_directory_stat:
  assumes "make_directory fs p = Inr fs'"
  shows "stat fs' p = Inr Dir"
proof -
  have ok: "path_error fs p = None" "nodes fs (locate fs p) = None"
    and fs': "fs' = fs\<lparr>nodes := (nodes fs)(locate fs p \<mapsto> Dir)\<rparr>"
    using assms by (simp_all add: make_directory_Inr)
  have "path_error fs' p = None"
    using ok by (simp add: fs' path_error_def walk_update)
  then show ?thesis
    by (simp add: stat_def fs')
qed

lemma make_directory_path_error:
  "path_error fs p = Some e \<Longrightarrow> make_directory fs p = Inl e"
  by (simp add: make_directory_def)

lemma create_output_directory_returns:
  assumes "fst (create_output_directory tag deployment d w) = Inr ()"
  shows "stat (files (snd (create_output_directory tag deployment d w))) d \<noteq> Inl e"
    and "path_exists d (snd (create_output_directory tag deployment d w))"
    and "ext (snd (create_output_directory tag deployment d w)) = ext w"
    and "\<not> path_exists d w \<Longrightarrow>
      stat (files (snd (create_output_directory tag deployment d w))) d = Inr Dir \<and>
      make_directory (files w) d = Inr (files (snd (create_output_directory tag deployment d w)))"
  using assms
  by (auto simp: create_output_directory_cases path_exists_def make_directory_stat
      split: if_splits sum.splits)

lemma await_run_shell_eq:
  "await_run_shell rt cmd w =
     (fst (run_shell rt cmd (files w, ext w)),
      w\<lparr>files := fst (snd (run_shell rt cmd (files w, ext w))),
        ext := snd (snd (run_shell rt cmd (files w, ext w))),
        trace := trace w @ [RunShell cmd]\<rparr>)"
  by (simp add: await_run_shell_def emit_def split: prod.splits)

lemma package_device_events:
  "\<exists>evs. trace (snd (package_device F E b e i w)) = trace w @ evs \<and>
     (\<forall>ev \<in> set evs. packaging_event ev)"
  using package_device_trace [of F E b e i w] by auto

lemma packaging_event_plain:
  "packaging_event ev \<Longrightarrow> \<not> is_run_shell ev \<and> ev \<noteq> Mkdir d"
  by (cases ev) simp_all

text \<open>The three ways through a device build.\<close>

lemma make_dev_blocked:
  assumes "fst (create_output_directory (image_repo @ '':'' @ name) deployment
                  (resolve rt dev_out) w) = Inl e"
  shows "make_dev rt image_repo name design deployment dev_name dev_in dev_out defines make_target w
    = (Inl e, snd (create_output_directory (image_repo @ '':'' @ name) deployment
                     (resolve rt dev_out) w))"
  using assms
  by (cases "create_output_directory (image_repo @ '':'' @ name) deployment
        (resolve rt dev_out) w") (simp add: make_dev_def Let_def)

lemma make_dev_failed:
  assumes "create_output_directory (image_repo @ '':'' @ name) deployment
             (resolve rt dev_out) w = (Inr (), w1)"
    and "fst (run_shell rt
       (make_dev_command image_repo name deployment (resolve rt (joinpath rt design dev_in))
          (resolve rt dev_out) dev_name defines make_target) (files w1, ext w1)) = Inl e"
  shows "make_dev rt image_repo name design deployment dev_name dev_in dev_out defines make_target w
    = (Inl e, snd (await_run_shell rt
         (make_dev_command image_repo name deployment (resolve rt (joinpath rt design dev_in))
            (resolve rt dev_out) dev_name defines make_target) w1))"
  using assms
  by (simp add: make_dev_def Let_def await_run_shell_eq split: prod.splits sum.splits)

lemma make_dev_succeeded:
  assumes "create_output_directory (image_repo @ '':'' @ name) deployment
             (resolve rt dev_out) w = (Inr (), w1)"
    and "fst (run_shell rt
       (make_dev_command image_repo name deployment (resolve rt (joinpath rt design dev_in))
          (resolve rt dev_out) dev_name defines make_target) (files w1, ext w1)) = Inr out"
    and "w2 = snd (await_run_shell rt (make_dev_command image_repo name deployment
          (resolve rt (joinpath rt design dev_in)) (resolve rt dev_out) dev_name defines
          make_target) w1)"
    and "w4 = emit (LogInfo ((image_repo @ '':'' @ name) @ '':'' @ deployment
                              @ '': Packaging image for device '' @ dev_name))
               (emit (LogInfo ((image_repo @ '':'' @ name) @ '':'' @ deployment
                              @ '': Built device '' @ dev_name)) w2)"
    and "pk = package_device (FW_FLASH_SIZE rt) (FW_EEPROM_SIZE rt)
               (joinpath rt (resolve rt dev_out) (dev_name @ ''.bin''))
               (joinpath rt (resolve rt dev_out) (dev_name @ ''.eeprom''))
               (joinpath rt (resolve rt dev_out) (dev_name @ ''.img'')) w4"
  shows "make_dev rt image_repo name design deployment dev_name dev_in dev_out defines make_target w
    = (case fst pk of
         Inl e \<Rightarrow> (Inl e, snd pk)
       | Inr u \<Rightarrow> (Inr out, emit (LogInfo ((image_repo @ '':'' @ name) @ '':'' @ deployment
                     @ '': Packaged device '' @ dev_name @ '' image'')) (snd pk)))"
  using assms
  by (simp add: make_dev_def Let_def await_run_shell_eq split: prod.splits sum.splits)

text \<open>
  The trace of a device build: the output directory block; then, unless the block has
  raised, the compile step; then log lines and the packaging.
\<close>

lemma make_dev_trace:
  assumes "tag = image_repo @ '':'' @ name"
    and "cmd = make_dev_command image_repo name deployment
           (resolve rt (joinpath rt design dev_in)) (resolve rt dev_out) dev_name defines make_target"
    and "pre = (if path_exists (resolve rt dev_out) w then []
      else [LogInfo (tag @ '':'' @ deployment @ '': Making output directory '' @ resolve rt dev_out),
            Mkdir (resolve rt dev_out)])"
    and "blk = create_output_directory tag deployment (resolve rt dev_out) w"
    and "r = make_dev rt image_repo name design deployment dev_name dev_in dev_out defines
               make_target w"
    and "fst blk = Inr ()"
  shows "\<exists>post. trace (snd r) = trace w @ pre @ [RunShell cmd] @ post \<and>
      (\<forall>ev \<in> set post. packaging_event ev) \<and>
      (\<forall>e. fst (run_shell rt cmd (files (snd blk), ext (snd blk))) = Inl e \<longrightarrow>
         post = [] \<and> fst r = Inl e \<and>
         files (snd r) = fst (snd (run_shell rt cmd (files (snd blk), ext (snd blk)))))"
proof -
  define w1 where "w1 = snd blk"
  define w2 where "w2 = snd (await_run_shell rt cmd w1)"
  have blk: "create_output_directory (image_repo @ '':'' @ name) deployment
      (resolve rt dev_out) w = (Inr (), w1)"
    using assms(6) by (simp add: w1_def assms(4) assms(1) prod_eq_iff)
  have t1: "trace w1 = trace w @ pre"
    by (simp add: w1_def assms(3,4) trace_create_output_directory)
  have t2: "trace w2 = trace w @ pre @ [RunShell cmd]"
    by (simp add: w2_def await_run_shell_eq t1)
  show ?thesis
  proof (cases "fst (run_shell rt cmd (files w1, ext w1))")
    case (Inl e)
    have "r = (Inl e, w2)"
      unfolding assms(5) w2_def assms(2)
      by (rule make_dev_failed [OF blk]) (use Inl in \<open>simp add: assms(2)\<close>)
    moreover have "files w2 = fst (snd (run_shell rt cmd (files w1, ext w1)))"
      by (simp add: w2_def await_run_shell_eq)
    ultimately show ?thesis
      using Inl by (simp add: t2 w1_def [symmetric])
  next
    case (Inr out)
    define w4 where "w4 = emit (LogInfo (tag @ '':'' @ deployment
                              @ '': Packaging image for device '' @ dev_name))
               (emit (LogInfo (tag @ '':'' @ deployment @ '': Built device '' @ dev_name)) w2)"
    define pk where "pk = package_device (FW_FLASH_SIZE rt) (FW_EEPROM_SIZE rt)
               (joinpath rt (resolve rt dev_out) (dev_name @ ''.bin''))
               (joinpath rt (resolve rt dev_out) (dev_name @ ''.eeprom''))
               (joinpath rt (resolve rt dev_out) (dev_name @ ''.img'')) w4"
    have r_eq: "r = (case fst pk of
         Inl e \<Rightarrow> (Inl e, snd pk)
       | Inr u \<Rightarrow> (Inr out, emit (LogInfo (tag @ '':'' @ deployment
                     @ '': Packaged device '' @ dev_name @ '' image'')) (snd pk)))"
      unfolding assms(5) assms(1)
      by (rule make_dev_succeeded [OF blk, where ?w2.0 = w2 and ?w4.0 = w4 and pk = pk])
        (use Inr in \<open>simp_all add: assms(1,2) w2_def w4_def pk_def\<close>)
    have t4: "trace w4 = trace w @ pre @ [RunShell cmd,
        LogInfo (tag @ '':'' @ deployment @ '': Built device '' @ dev_name),
        LogInfo (tag @ '':'' @ deployment @ '': Packaging image for device '' @ dev_name)]"
      by (simp add: w4_def emit_def t2)
    obtain evs where evs: "trace (snd pk) = trace w4 @ evs" "\<forall>ev \<in> set evs. packaging_event ev"
      using package_device_events unfolding pk_def by blast
    have "\<exists>post. trace (snd r) = trace w @ pre @ [RunShell cmd] @ post \<and>
        (\<forall>ev \<in> set post. packaging_event ev)"
    proof (cases "fst pk")
      case (Inl e)
      then show ?thesis using evs(2) by (simp add: r_eq evs(1) t4)
    next
      case (Inr u)
      then show ?thesis using evs(2) by (simp add: r_eq evs(1) t4 emit_def)
    qed
    then show ?thesis using Inr by (simp add: w1_def [symmetric])
  qed
qed

lemma make_dev_new_events:
  assumes "tag = image_repo @ '':'' @ name"
    and "cmd = make_dev_command image_repo name deployment
           (resolve rt (joinpath rt design dev_in)) (resolve rt dev_out) dev_name defines make_target"
    and "pre = (if path_exists (resolve rt dev_out) w then []
      else [LogInfo (tag @ '':'' @ deployment @ '': Making output directory '' @ resolve rt dev_out),
            Mkdir (resolve rt dev_out)])"
    and "blk = create_output_directory tag deployment (resolve rt dev_out) w"
    and "r = make_dev rt image_repo name design deployment dev_name dev_in dev_out defines
               make_target w"
    and "fst blk = Inr ()"
  shows "\<exists>post. new_events w (snd r) = pre @ [RunShell cmd] @ post \<and>
      (\<forall>ev \<in> set post. packaging_event ev) \<and>
      (\<forall>e. fst (run_shell rt cmd (files (snd blk), ext (snd blk))) = Inl e \<longrightarrow>
         post = [] \<and> fst r = Inl e \<and>
         files (snd r) = fst (snd (run_shell rt cmd (files (snd blk), ext (snd blk)))))"
proof -
  obtain post where post: "trace (snd r) = trace w @ (pre @ [RunShell cmd] @ post)"
    "\<forall>ev \<in> set post. packaging_event ev"
    "\<forall>e. fst (run_shell rt cmd (files (snd blk), ext (snd blk))) = Inl e \<longrightarrow>
         post = [] \<and> fst r = Inl e \<and>
         files (snd r) = fst (snd (run_shell rt cmd (files (snd blk), ext (snd blk))))"
    using make_dev_trace [OF assms] by auto
  have "new_events w (snd r) = pre @ [RunShell cmd] @ post"
    using post(1) by (rule new_events_append)
  then show ?thesis using post(2,3) by blast
qed

lemma make_dev_blocked_events:
  assumes "fst (create_output_directory (image_repo @ '':'' @ name) deployment
                  (resolve rt dev_out) w) = Inl e"
  shows "fst (make_dev rt image_repo name design deployment dev_name dev_in dev_out defines
                make_target w) = Inl e"
    and "files (snd (make_dev rt image_repo name design deployment dev_name dev_in dev_out defines
                make_target w)) = files w"
    and "new_events w (snd (make_dev rt image_repo name design deployment dev_name dev_in dev_out
                defines make_target w))
         = [LogInfo ((image_repo @ '':'' @ name) @ '':'' @ deployment
              @ '': Making output directory '' @ resolve rt dev_out), Mkdir (resolve rt dev_out)]"
proof -
  let ?blk = "create_output_directory (image_repo @ '':'' @ name) deployment (resolve rt dev_out) w"
  let ?r = "make_dev rt image_repo name design deployment dev_name dev_in dev_out defines
              make_target w"
  have r: "?r = (Inl e, snd ?blk)"
    using assms by (rule make_dev_blocked)
  have raised: "\<not> path_exists (resolve rt dev_out) w" "files (snd ?blk) = files w"
    using create_output_directory_raises [OF assms] by simp_all
  show "fst ?r = Inl e" by (simp add: r)
  show "files (snd ?r) = files w" using raised(2) by (simp add: r)
  have "trace (snd ?r) = trace w @ [LogInfo ((image_repo @ '':'' @ name) @ '':'' @ deployment
              @ '': Making output directory '' @ resolve rt dev_out), Mkdir (resolve rt dev_out)]"
    using raised(1) by (simp add: r trace_create_output_directory)
  then show "new_events w (snd ?r) = [LogInfo ((image_repo @ '':'' @ name) @ '':'' @ deployment
              @ '': Making output directory '' @ resolve rt dev_out), Mkdir (resolve rt dev_out)]"
    by (rule new_events_append)
qed

lemma make_dev_run_shell_events:
  "filter is_run_shell
     (new_events w (snd (make_dev rt image_repo name design deployment dev_name dev_in dev_out
        defines make_target w)))
   = (case fst (create_output_directory (image_repo @ '':'' @ name) deployment
                  (resolve rt dev_out) w) of
        Inl e \<Rightarrow> []
      | Inr u \<Rightarrow> [RunShell (make_dev_command image_repo name deployment
          (resolve rt (joinpath rt design dev_in)) (resolve rt dev_out) dev_name defines
          make_target)])"
proof (cases "fst (create_output_directory (image_repo @ '':'' @ name) deployment
                  (resolve rt dev_out) w)")
  case (Inl e)
  then show ?thesis
    by (simp add: make_dev_blocked_events(3) [OF Inl])
next
  case (Inr u)
  then have ok: "fst (create_output_directory (image_repo @ '':'' @ name) deployment
                  (resolve rt dev_out) w) = Inr ()"
    by simp
  obtain post where post:
    "new_events w (snd (make_dev rt image_repo name design deployment dev_name dev_in dev_out
        defines make_target w))
     = (if path_exists (resolve rt dev_out) w then []
        else [LogInfo ((image_repo @ '':'' @ name) @ '':'' @ deployment
                @ '': Making output directory '' @ resolve rt dev_out),
              Mkdir (resolve rt dev_out)])
       @ [RunShell (make_dev_command image_repo name deployment
            (resolve rt (joinpath rt design dev_in)) (resolve rt dev_out) dev_name defines
            make_target)] @ post"
    "\<forall>ev \<in> set post. packaging_event ev"
    using make_dev_new_events [OF refl refl refl refl refl ok] by blast
  have "filter is_run_shell post = []"
    using post(2) by (auto simp: filter_empty_conv dest: packaging_event_plain)
  then show ?thesis
    using Inr by (simp add: post(1))
qed

text \<open>
  C3 (as amended). A device build runs the compile step at most once: exactly once, with
  the command of the build, when the output directory block returns, and not at all when
  \<^verbatim>\<open>mkdir\<close> raises in that block; the build then raises the error of \<^verbatim>\<open>mkdir\<close> and
  requests no file read or write. And if the compile step raises \<open>e\<close> (in the world the
  block has left), the build raises \<open>e\<close>, its trace holds no file read and no file write,
  so \<^verbatim>\<open>package_device\<close> was not called and nothing was written to the image, and the files
  are as the command left them.
\<close>

theorem make_dev_compile_step:
  "let tag = image_repo @ '':'' @ name;
       cmd = make_dev_command image_repo name deployment (resolve rt (joinpath rt design dev_in))
               (resolve rt dev_out) dev_name defines make_target;
       blk = create_output_directory tag deployment (resolve rt dev_out) w;
       r = make_dev rt image_repo name design deployment dev_name dev_in dev_out defines
             make_target w;
       evs = new_events w (snd r)
   in filter is_run_shell evs = (case fst blk of Inl e \<Rightarrow> [] | Inr u \<Rightarrow> [RunShell cmd]) \<and>
      (\<forall>e. fst blk = Inl e \<longrightarrow> fst r = Inl e \<and> filter is_file_access evs = []) \<and>
      (\<forall>e. fst blk = Inr () \<and>
           fst (run_shell rt cmd (files (snd blk), ext (snd blk))) = Inl e \<longrightarrow>
          fst r = Inl e \<and> filter is_file_access evs = [] \<and>
          files (snd r) = fst (snd (run_shell rt cmd (files (snd blk), ext (snd blk)))))"
proof -
  define tag where "tag = image_repo @ '':'' @ name"
  define cmd where "cmd = make_dev_command image_repo name deployment
     (resolve rt (joinpath rt design dev_in)) (resolve rt dev_out) dev_name defines make_target"
  define pre where "pre = (if path_exists (resolve rt dev_out) w then []
      else [LogInfo (tag @ '':'' @ deployment @ '': Making output directory '' @ resolve rt dev_out),
            Mkdir (resolve rt dev_out)])"
  define blk where "blk = create_output_directory tag deployment (resolve rt dev_out) w"
  define r where
    "r = make_dev rt image_repo name design deployment dev_name dev_in dev_out defines make_target w"
  define evs where "evs = new_events w (snd r)"
  have once: "filter is_run_shell evs = (case fst blk of Inl e \<Rightarrow> [] | Inr u \<Rightarrow> [RunShell cmd])"
    unfolding evs_def r_def blk_def tag_def cmd_def by (rule make_dev_run_shell_events)
  have blocked: "fst r = Inl e \<and> filter is_file_access evs = []" if "fst blk = Inl e" for e
  proof -
    have b: "fst (create_output_directory (image_repo @ '':'' @ name) deployment
        (resolve rt dev_out) w) = Inl e"
      using that by (simp add: blk_def tag_def)
    show ?thesis
      unfolding evs_def r_def
      by (simp add: make_dev_blocked_events(1) [OF b] make_dev_blocked_events(3) [OF b])
  qed
  have failed: "fst r = Inl e \<and> filter is_file_access evs = [] \<and>
      files (snd r) = fst (snd (run_shell rt cmd (files (snd blk), ext (snd blk))))"
    if ok: "fst blk = Inr ()"
      and raised: "fst (run_shell rt cmd (files (snd blk), ext (snd blk))) = Inl e" for e
  proof -
    obtain post where post: "evs = pre @ [RunShell cmd] @ post"
      "\<forall>e. fst (run_shell rt cmd (files (snd blk), ext (snd blk))) = Inl e \<longrightarrow>
         post = [] \<and> fst r = Inl e \<and>
         files (snd r) = fst (snd (run_shell rt cmd (files (snd blk), ext (snd blk))))"
      unfolding evs_def
      using make_dev_new_events [OF tag_def cmd_def pre_def blk_def r_def ok] by blast
    have "filter is_file_access pre = []"
      by (simp add: pre_def)
    then show ?thesis
      using post raised by simp
  qed
  show ?thesis
    using once blocked failed
    unfolding Let_def tag_def [symmetric] cmd_def [symmetric] blk_def [symmetric]
      r_def [symmetric] evs_def [symmetric]
    by blast
qed

theorem make_dev_compile_step_witness:
  "fst (make_dev failing_runtime ''ectf'' ''env'' ''/design'' ''dep'' ''car'' ''car'' ''/out''
          '' CAR_ID=7'' ''car'' example_world) = Inl (ShellError 2 [] [0x65]) \<and>
   filter is_file_access (new_events example_world
     (snd (make_dev failing_runtime ''ectf'' ''env'' ''/design'' ''dep'' ''car'' ''car'' ''/out''
          '' CAR_ID=7'' ''car'' example_world))) = [] \<and>
   filter is_run_shell (new_events example_world
     (snd (make_dev failing_runtime ''ectf'' ''env'' ''/design'' ''dep'' ''car'' ''car'' ''/out''
          '' CAR_ID=7'' ''car'' example_world)))
     = [RunShell (make_dev_command ''ectf'' ''env'' ''dep'' ''/design/car'' ''/out'' ''car''
          '' CAR_ID=7'' ''car'')]"
proof -
  have exists: "path_exists ''/out'' example_world"
    by (simp add: path_exists_def stat_def path_error_def example_world_def example_files_def
        plain_fs_def plain_locate_def dirnames_def)
  have blk: "create_output_directory ''ectf:env'' ''dep'' ''/out'' example_world
      = (Inr (), example_world)"
    using exists by (simp add: create_output_directory_cases)
  note inst = make_dev_compile_step [where rt = failing_runtime and image_repo = "''ectf''"
      and name = "''env''" and design = "''/design''" and deployment = "''dep''"
      and dev_name = "''car''" and dev_in = "''car''" and dev_out = "''/out''"
      and ?defines = "'' CAR_ID=7''" and make_target = "''car''" and w = example_world,
      unfolded Let_def]
  have res: "resolve failing_runtime = (\<lambda>p. p)" "joinpath failing_runtime = (\<lambda>p q. p @ ''/'' @ q)"
    "run_shell failing_runtime = (\<lambda>cmd (fs, x). (Inl (ShellError 2 [] [0x65]), fs, x))"
    by (simp_all add: failing_runtime_def example_runtime_def)
  from inst show ?thesis
    using blk by (simp add: res)
qed

text \<open>
  The claim as stated fails: below a missing directory \<^verbatim>\<open>mkdir\<close> raises, the build raises
  \<^verbatim>\<open>FileNotFoundError\<close> and the compile step is not run.
\<close>

theorem make_dev_compile_step_counterexample:
  "fst (make_dev example_runtime ''ectf'' ''env'' ''/design'' ''dep'' ''car'' ''car''
          ''/nodir/out'' '' CAR_ID=7'' ''car'' empty_world)
     = Inl (FileNotFoundError ''/nodir/out'') \<and>
   filter is_run_shell (new_events empty_world
     (snd (make_dev example_runtime ''ectf'' ''env'' ''/design'' ''dep'' ''car'' ''car''
          ''/nodir/out'' '' CAR_ID=7'' ''car'' empty_world))) = []"
proof -
  have blk: "fst (create_output_directory (''ectf'' @ '':'' @ ''env'') ''dep''
      (resolve example_runtime ''/nodir/out'') empty_world)
    = Inl (FileNotFoundError ''/nodir/out'')"
    by (simp add: create_output_directory_cases path_exists_def stat_def make_directory_def
        path_error_def example_runtime_def empty_world_def plain_fs_def plain_locate_def
        dirnames_def)
  show ?thesis
    by (simp add: make_dev_blocked_events(1) [OF blk] make_dev_blocked_events(3) [OF blk])
qed

text \<open>
  C9 (as amended). When the resolved output path exists, the block leaves the world as it
  is and raises nothing, the build requests no \<^verbatim>\<open>mkdir\<close> and reaches the compile step: the
  directory is reused. When it does not exist, the build first logs and requests \<^verbatim>\<open>mkdir\<close>
  (without \<^verbatim>\<open>parents=True\<close>). If \<^verbatim>\<open>mkdir\<close> returns, the directory is there, no other file
  has changed, the compile step is reached, and a build started in the world the block has
  left finds the directory and does what the first build does. If \<^verbatim>\<open>mkdir\<close> raises, as it
  does when a directory above the path is missing or is a regular file, the build raises
  that error, nothing has been created and the compile step is not reached.
\<close>

theorem make_dev_output_directory:
  "let tag = image_repo @ '':'' @ name;
       d = resolve rt dev_out;
       cmd = make_dev_command image_repo name deployment (resolve rt (joinpath rt design dev_in))
               d dev_name defines make_target;
       blk = create_output_directory tag deployment d w;
       w1 = snd blk;
       r = make_dev rt image_repo name design deployment dev_name dev_in dev_out defines
             make_target w;
       evs = new_events w (snd r)
   in (if path_exists d w
       then blk = (Inr (), w) \<and> Mkdir d \<notin> set evs \<and> RunShell cmd \<in> set evs
       else take 2 evs = [LogInfo (tag @ '':'' @ deployment @ '': Making output directory '' @ d),
                          Mkdir d] \<and>
            (fst blk = Inr () \<longrightarrow>
               stat (files w1) d = Inr Dir \<and> path_exists d w1 \<and>
               (\<forall>k. k \<noteq> locate (files w) d \<longrightarrow> nodes (files w1) k = nodes (files w) k) \<and>
               RunShell cmd \<in> set evs \<and>
               create_output_directory tag deployment d w1 = (Inr (), w1) \<and>
               make_dev rt image_repo name design deployment dev_name dev_in dev_out defines
                 make_target w1 = r) \<and>
            (\<forall>e. fst blk = Inl e \<longrightarrow>
               fst r = Inl e \<and> files (snd r) = files w \<and> \<not> path_exists d (snd r) \<and>
               RunShell cmd \<notin> set evs) \<and>
            (\<forall>e. path_error (files w) d = Some e \<longrightarrow> fst blk = Inl e))"
proof -
  define tag where "tag = image_repo @ '':'' @ name"
  define d where "d = resolve rt dev_out"
  define cmd where "cmd = make_dev_command image_repo name deployment
     (resolve rt (joinpath rt design dev_in)) d dev_name defines make_target"
  define pre where "pre = (if path_exists d w then []
      else [LogInfo (tag @ '':'' @ deployment @ '': Making output directory '' @ d), Mkdir d])"
  define blk where "blk = create_output_directory tag deployment d w"
  define w1 where "w1 = snd blk"
  define r where
    "r = make_dev rt image_repo name design deployment dev_name dev_in dev_out defines make_target w"
  define evs where "evs = new_events w (snd r)"
  have returned: "\<exists>post. evs = pre @ [RunShell cmd] @ post \<and> Mkdir d \<notin> set post"
    if ok: "fst blk = Inr ()"
  proof -
    obtain post where "evs = pre @ [RunShell cmd] @ post" "\<forall>ev \<in> set post. packaging_event ev"
      unfolding evs_def
      using make_dev_new_events [OF tag_def cmd_def [unfolded d_def] pre_def [unfolded d_def]
          blk_def [unfolded d_def] r_def ok]
      by blast
    then show ?thesis
      using packaging_event_plain by blast
  qed
  have raised: "fst r = Inl e \<and> files (snd r) = files w \<and> evs = pre \<and> \<not> path_exists d w"
    if "fst blk = Inl e" for e
  proof -
    have b: "fst (create_output_directory (image_repo @ '':'' @ name) deployment
        (resolve rt dev_out) w) = Inl e"
      using that by (simp add: blk_def tag_def d_def)
    have "\<not> path_exists d w"
      using create_output_directory_raises [OF b] by (simp add: d_def)
    then show ?thesis
      unfolding evs_def r_def
      using make_dev_blocked_events [OF b] by (simp add: pre_def tag_def d_def)
  qed
  have same: "make_dev rt image_repo name design deployment dev_name dev_in dev_out defines
        make_target w1 = r"
    if ok: "fst blk = Inr ()"
  proof -
    have blk_w: "create_output_directory (image_repo @ '':'' @ name) deployment
        (resolve rt dev_out) w = (Inr (), w1)"
      using ok by (simp add: w1_def blk_def tag_def d_def prod_eq_iff)
    have "path_exists d w1"
      unfolding w1_def blk_def
      by (rule create_output_directory_returns(2)) (use ok in \<open>simp add: blk_def\<close>)
    then have blk_w1: "create_output_directory (image_repo @ '':'' @ name) deployment
        (resolve rt dev_out) w1 = (Inr (), w1)"
      by (simp add: create_output_directory_cases d_def)
    show ?thesis
      unfolding r_def make_dev_def Let_def blk_w blk_w1 by simp
  qed
  show ?thesis
  proof (cases "path_exists d w")
    case True
    then have blk_w: "blk = (Inr (), w)"
      by (simp add: blk_def create_output_directory_cases)
    then obtain post where "evs = pre @ [RunShell cmd] @ post" "Mkdir d \<notin> set post"
      using returned by auto
    then have "Mkdir d \<notin> set evs \<and> RunShell cmd \<in> set evs"
      using True by (simp add: pre_def)
    then show ?thesis
      using True blk_w
      unfolding Let_def tag_def [symmetric] d_def [symmetric] cmd_def [symmetric]
        blk_def [symmetric] w1_def [symmetric] r_def [symmetric] evs_def [symmetric]
      by simp
  next
    case False
    have start: "take 2 evs
        = [LogInfo (tag @ '':'' @ deployment @ '': Making output directory '' @ d), Mkdir d]"
    proof (cases "fst blk")
      case (Inl e)
      then show ?thesis using raised False by (simp add: pre_def)
    next
      case (Inr u)
      then obtain post where "evs = pre @ [RunShell cmd] @ post"
        using returned by auto
      then show ?thesis using False by (simp add: pre_def)
    qed
    have created: "stat (files w1) d = Inr Dir \<and> path_exists d w1 \<and>
        (\<forall>k. k \<noteq> locate (files w) d \<longrightarrow> nodes (files w1) k = nodes (files w) k) \<and>
        RunShell cmd \<in> set evs \<and>
        create_output_directory tag deployment d w1 = (Inr (), w1) \<and>
        make_dev rt image_repo name design deployment dev_name dev_in dev_out defines
          make_target w1 = r"
      if ok: "fst blk = Inr ()"
    proof -
      have made: "stat (files w1) d = Inr Dir" "make_directory (files w) d = Inr (files w1)"
        using create_output_directory_returns(4) [OF ok [unfolded blk_def] False]
        by (simp_all add: w1_def blk_def)
      have there: "path_exists d w1"
        using made(1) by (simp add: path_exists_def)
      have frame: "\<forall>k. k \<noteq> locate (files w) d \<longrightarrow> nodes (files w1) k = nodes (files w) k"
        using made(2) by (auto simp: make_directory_Inr)
      obtain post where "evs = pre @ [RunShell cmd] @ post"
        using returned [OF ok] by auto
      then have reached: "RunShell cmd \<in> set evs"
        by simp
      have again: "create_output_directory tag deployment d w1 = (Inr (), w1)"
        using there by (simp add: create_output_directory_cases)
      show ?thesis
        using made(1) there frame reached again same [OF ok] by blast
    qed
    have stopped: "fst r = Inl e \<and> files (snd r) = files w \<and> \<not> path_exists d (snd r) \<and>
        RunShell cmd \<notin> set evs"
      if "fst blk = Inl e" for e
    proof -
      have r: "fst r = Inl e" "files (snd r) = files w" "evs = pre"
        using raised [OF that] by simp_all
      have "\<not> path_exists d (snd r)"
        using False r(2) by (simp add: path_exists_def)
      moreover have "RunShell cmd \<notin> set evs"
        by (simp add: r(3) pre_def)
      ultimately show ?thesis
        using r by simp
    qed
    have above: "fst blk = Inl e" if "path_error (files w) d = Some e" for e
      using False make_directory_path_error [OF that]
      by (simp add: blk_def create_output_directory_cases)
    show ?thesis
      using False start created stopped above
      unfolding Let_def tag_def [symmetric] d_def [symmetric] cmd_def [symmetric]
        blk_def [symmetric] w1_def [symmetric] r_def [symmetric] evs_def [symmetric]
      by simp
  qed
qed

theorem make_dev_output_directory_witness:
  "stat (files (snd (create_output_directory ''ectf:env'' ''dep'' ''/out'' empty_world))) ''/out''
     = Inr Dir \<and>
   create_output_directory ''ectf:env'' ''dep'' ''/out'' example_world = (Inr (), example_world) \<and>
   Mkdir ''/out'' \<notin> set (new_events example_world
     (snd (make_dev example_runtime ''ectf'' ''env'' ''/design'' ''dep'' ''car'' ''car'' ''/out''
          '' CAR_ID=7'' ''car'' example_world)))"
proof -
  have res: "resolve example_runtime = (\<lambda>p. p)"
    by (simp add: example_runtime_def)
  have missing: "\<not> path_exists ''/out'' empty_world"
    by (simp add: path_exists_def stat_def path_error_def empty_world_def plain_fs_def
        plain_locate_def dirnames_def)
  have made: "fst (create_output_directory ''ectf:env'' ''dep'' ''/out'' empty_world) = Inr ()"
    by (simp add: create_output_directory_cases path_exists_def stat_def make_directory_def
        path_error_def empty_world_def plain_fs_def plain_locate_def dirnames_def)
  have there: "path_exists ''/out'' example_world"
    by (simp add: path_exists_def stat_def path_error_def example_world_def example_files_def
        plain_fs_def plain_locate_def dirnames_def)
  note fresh = make_dev_output_directory [where rt = example_runtime and image_repo = "''ectf''"
      and name = "''env''" and design = "''/design''" and deployment = "''dep''"
      and dev_name = "''car''" and dev_in = "''car''" and dev_out = "''/out''"
      and ?defines = "'' CAR_ID=7''" and make_target = "''car''" and w = empty_world,
      unfolded Let_def res]
  note reused = make_dev_output_directory [where rt = example_runtime and image_repo = "''ectf''"
      and name = "''env''" and design = "''/design''" and deployment = "''dep''"
      and dev_name = "''car''" and dev_in = "''car''" and dev_out = "''/out''"
      and ?defines = "'' CAR_ID=7''" and make_target = "''car''" and w = example_world,
      unfolded Let_def res]
  have "stat (files (snd (create_output_directory ''ectf:env'' ''dep'' ''/out'' empty_world)))
      ''/out'' = Inr Dir"
    using fresh missing made by simp
  moreover have "create_output_directory ''ectf:env'' ''dep'' ''/out'' example_world
      = (Inr (), example_world) \<and>
    Mkdir ''/out'' \<notin> set (new_events example_world
     (snd (make_dev example_runtime ''ectf'' ''env'' ''/design'' ''dep'' ''car'' ''car'' ''/out''
          '' CAR_ID=7'' ''car'' example_world)))"
    using reused there by simp
  ultimately show ?thesis
    by simp
qed

text \<open>
  The claim as stated fails: the output path \<^verbatim>\<open>/nodir/out\<close> does not exist and neither
  does the directory above it; \<^verbatim>\<open>mkdir\<close> raises \<^verbatim>\<open>FileNotFoundError\<close>, the path still does
  not exist and the build has raised.
\<close>

theorem make_dev_output_directory_counterexample:
  "\<not> path_exists ''/nodir/out'' empty_world \<and>
   create_output_directory ''ectf:env'' ''dep'' ''/nodir/out'' empty_world
     = (Inl (FileNotFoundError ''/nodir/out''),
        empty_world\<lparr>trace := [LogInfo ''ectf:env:dep: Making output directory /nodir/out'',
          Mkdir ''/nodir/out'']\<rparr>) \<and>
   \<not> path_exists ''/nodir/out''
     (snd (create_output_directory ''ectf:env'' ''dep'' ''/nodir/out'' empty_world)) \<and>
   make_dev example_runtime ''ectf'' ''env'' ''/design'' ''dep'' ''car'' ''car'' ''/nodir/out''
       '' CAR_ID=7'' ''car'' empty_world
     = (Inl (FileNotFoundError ''/nodir/out''),
        empty_world\<lparr>trace := [LogInfo ''ectf:env:dep: Making output directory /nodir/out'',
          Mkdir ''/nodir/out'']\<rparr>)"
  by (simp add: make_dev_def Let_def create_output_directory_cases path_exists_def stat_def
      make_directory_def path_error_def example_runtime_def empty_world_def plain_fs_def
      plain_locate_def dirnames_def)

text \<open>
  C5 (as amended). Every compile step of a device build is one \<^verbatim>\<open>docker run\<close> command (the
  build runs it once, unless \<^verbatim>\<open>mkdir\<close> has raised before), and the volume that command
  mounts at \<^verbatim>\<open>/secrets\<close> is named by the image repository, the environment name and the
  deployment, joined by dots, followed by \<^verbatim>\<open>.secrets.vol\<close>.
\<close>

theorem make_dev_secrets_volume:
  "let host_in = resolve rt (joinpath rt design dev_in);
       host_out = resolve rt dev_out;
       cmd = make_dev_command image_repo name deployment host_in host_out dev_name defines
               make_target;
       blk = create_output_directory (image_repo @ '':'' @ name) deployment host_out w
   in filter is_run_shell
        (new_events w (snd (make_dev rt image_repo name design deployment dev_name dev_in
           dev_out defines make_target w)))
        = (case fst blk of Inl e \<Rightarrow> [] | Inr u \<Rightarrow> [RunShell cmd]) \<and>
      secrets_volume image_repo name deployment
        = image_repo @ ''.'' @ name @ ''.'' @ deployment @ ''.secrets.vol'' \<and>
      cmd = (''docker run -v '' @ dq @ host_in @ dq @ '':/dev_in:ro''
               @ '' -v '' @ dq @ host_out @ dq @ '':/dev_out'')
            @ '' -v '' @ secrets_volume image_repo name deployment @ '':/secrets''
            @ ('' --workdir=/root '' @ image_repo @ '':'' @ name @ '' /bin/bash -c '' @ dq
               @ '' cp -r /dev_in/. /root/ && make '' @ make_target @ '' '' @ defines
               @ '' SECRETS_DIR=/secrets BIN_PATH=/dev_out/'' @ dev_name
               @ ''.bin ELF_PATH=/dev_out/'' @ dev_name
               @ ''.elf EEPROM_PATH=/dev_out/'' @ dev_name @ ''.eeprom'' @ dq)"
proof -
  have "filter is_run_shell
        (new_events w (snd (make_dev rt image_repo name design deployment dev_name dev_in
           dev_out defines make_target w)))
     = (case fst (create_output_directory (image_repo @ '':'' @ name) deployment
                    (resolve rt dev_out) w) of
          Inl e \<Rightarrow> []
        | Inr u \<Rightarrow> [RunShell (make_dev_command image_repo name deployment
            (resolve rt (joinpath rt design dev_in)) (resolve rt dev_out) dev_name defines
            make_target)])"
    by (rule make_dev_run_shell_events)
  moreover have "make_dev_command image_repo name deployment
      (resolve rt (joinpath rt design dev_in)) (resolve rt dev_out) dev_name defines make_target
    = (''docker run -v '' @ dq @ resolve rt (joinpath rt design dev_in) @ dq @ '':/dev_in:ro''
         @ '' -v '' @ dq @ resolve rt dev_out @ dq @ '':/dev_out'')
      @ '' -v '' @ secrets_volume image_repo name deployment @ '':/secrets''
      @ ('' --workdir=/root '' @ image_repo @ '':'' @ name @ '' /bin/bash -c '' @ dq
         @ '' cp -r /dev_in/. /root/ && make '' @ make_target @ '' '' @ defines
         @ '' SECRETS_DIR=/secrets BIN_PATH=/dev_out/'' @ dev_name
         @ ''.bin ELF_PATH=/dev_out/'' @ dev_name
         @ ''.elf EEPROM_PATH=/dev_out/'' @ dev_name @ ''.eeprom'' @ dq)"
    by (simp add: make_dev_command_def Let_def)
  ultimately show ?thesis
    unfolding Let_def by (simp add: secrets_volume_def)
qed

theorem make_dev_secrets_volume_witness:
  "filter is_run_shell (new_events example_world
     (snd (make_dev example_runtime ''ectf'' ''env'' ''/design'' ''dep'' ''car'' ''car'' ''/out''
          '' CAR_ID=7'' ''car'' example_world)))
     = [RunShell (''docker run -v '' @ dq @ ''/design/car'' @ dq @ '':/dev_in:ro -v '' @ dq
          @ ''/out'' @ dq @ '':/dev_out -v ectf.env.dep.secrets.vol:/secrets --workdir=/root''
          @ '' ectf:env /bin/bash -c '' @ dq @ '' cp -r /dev_in/. /root/ && make car  CAR_ID=7''
          @ '' SECRETS_DIR=/secrets BIN_PATH=/dev_out/car.bin ELF_PATH=/dev_out/car.elf''
          @ '' EEPROM_PATH=/dev_out/car.eeprom'' @ dq)]"
proof -
  have there: "path_exists ''/out'' example_world"
    by (simp add: path_exists_def stat_def path_error_def example_world_def example_files_def
        plain_fs_def plain_locate_def dirnames_def)
  have blk: "create_output_directory ''ectf:env'' ''dep'' ''/out'' example_world
      = (Inr (), example_world)"
    using there by (simp add: create_output_directory_cases)
  have res: "resolve example_runtime = (\<lambda>p. p)" "joinpath example_runtime = (\<lambda>p q. p @ ''/'' @ q)"
    by (simp_all add: example_runtime_def)
  note inst = make_dev_secrets_volume [where rt = example_runtime and image_repo = "''ectf''"
      and name = "''env''" and design = "''/design''" and deployment = "''dep''"
      and dev_name = "''car''" and dev_in = "''car''" and dev_out = "''/out''"
      and ?defines = "'' CAR_ID=7''" and make_target = "''car''" and w = example_world,
      unfolded Let_def]
  from inst show ?thesis
    using blk by (simp add: res secrets_volume_def)
qed

text \<open>
  The claim as stated fails: for the image \<^verbatim>\<open>ectf\<close>, the environment \<^verbatim>\<open>env\<close> and the
  deployment \<^verbatim>\<open>dep\<close> the volume in the command is \<^verbatim>\<open>ectf.env.dep.secrets.vol\<close>, not
  \<^verbatim>\<open>ectf.env.dep.secrets\<close>.
\<close>

theorem make_dev_secrets_volume_counterexample:
  "secrets_volume ''ectf'' ''env'' ''dep'' = ''ectf.env.dep.secrets.vol'' \<and>
   secrets_volume ''ectf'' ''env'' ''dep'' \<noteq> ''ectf.env.dep.secrets'' \<and>
   make_dev_command ''ectf'' ''env'' ''dep'' ''/design/car'' ''/out'' ''car'' '' CAR_ID=7'' ''car''
     = ''docker run -v '' @ dq @ ''/design/car'' @ dq @ '':/dev_in:ro -v '' @ dq
          @ ''/out'' @ dq @ '':/dev_out -v ectf.env.dep.secrets.vol:/secrets --workdir=/root''
          @ '' ectf:env /bin/bash -c '' @ dq @ '' cp -r /dev_in/. /root/ && make car  CAR_ID=7''
          @ '' SECRETS_DIR=/secrets BIN_PATH=/dev_out/car.bin ELF_PATH=/dev_out/car.elf''
          @ '' EEPROM_PATH=/dev_out/car.eeprom'' @ dq"
  by (simp add: secrets_volume_def make_dev_command_def)

subsection \<open>car\_fob\_pair\<close>





subsection \<open>env\<close>

lemma join_streams_spec: "join_streams logs_raw = concat (spec_stream_entries logs_raw)"
  by (induction logs_raw) (auto simp: join_streams_def)

lemma read_file_stat: "stat fs p = Inl e \<Longrightarrow> read_file fs p = Inl e"
  by (simp add: read_file_def)

text \<open>
  C4 (as amended). When no file can be reached at the resolved path of the Dockerfile (the
  design directory is missing, or it does not hold \<^verbatim>\<open>docker_dir/dockerfile\<close>), the
  environment build raises the built-in error of \<^verbatim>\<open>open\<close> for that path:
  \<^verbatim>\<open>FileNotFoundError\<close> when the file or a directory on the way is missing,
  \<^verbatim>\<open>NotADirectoryError\<close> when a regular file stands where a directory is needed. It has
  then logged one line and tried to open the file, and nothing else: no archive of the
  build directory and no call of the docker client.
\<close>

theorem env_missing_dockerfile:
  assumes "stat (files w) (joinpath rt (joinpath rt (resolve rt design) docker_dir) dockerfile)
             = Inl e"
  shows "env rt design name image_repo docker_dir dockerfile w =
     (Inl e,
      w\<lparr>trace := trace w @ [LogInfo (''Building image '' @ image_repo @ '':'' @ name),
          OpenRead (joinpath rt (joinpath rt (resolve rt design) docker_dir) dockerfile)]\<rparr>) \<and>
    (e = FileNotFoundError (joinpath rt (joinpath rt (resolve rt design) docker_dir) dockerfile) \<or>
     e = NotADirectoryError (joinpath rt (joinpath rt (resolve rt design) docker_dir) dockerfile)) \<and>
    filter is_container_call
      (new_events w (snd (env rt design name image_repo docker_dir dockerfile w))) = []"
  using assms stat_error_kind [OF assms]
  by (simp add: env_def Let_def open_read_def emit_def new_events_def read_file_stat)

text \<open>The design path is a regular file: \<^verbatim>\<open>open\<close> raises \<^verbatim>\<open>NotADirectoryError\<close>.\<close>

theorem env_missing_dockerfile_witness:
  "env example_runtime ''/design'' ''env'' ''ectf'' ''docker_env'' ''build_image.Dockerfile''
     design_file_world
   = (Inl (NotADirectoryError ''/design/docker_env/build_image.Dockerfile''),
      design_file_world\<lparr>trace := [LogInfo ''Building image ectf:env'',
        OpenRead ''/design/docker_env/build_image.Dockerfile'']\<rparr>)"
proof -
  have res: "resolve example_runtime = (\<lambda>p. p)" "joinpath example_runtime = (\<lambda>p q. p @ ''/'' @ q)"
    by (simp_all add: example_runtime_def)
  have "stat (files design_file_world)
      (joinpath example_runtime (joinpath example_runtime (resolve example_runtime ''/design'')
         ''docker_env'') ''build_image.Dockerfile'')
    = Inl (NotADirectoryError ''/design/docker_env/build_image.Dockerfile'')"
    by (simp add: res stat_def path_error_def design_file_world_def plain_fs_def plain_locate_def
        dirnames_def)
  from env_missing_dockerfile [OF this] show ?thesis
    by (simp add: res design_file_world_def)
qed

text \<open>
  The claim as stated fails: the source defines no ConfigError, and with the design
  directory missing the build raises the \<^verbatim>\<open>FileNotFoundError\<close> of \<^verbatim>\<open>open\<close>.
\<close>

theorem env_missing_dockerfile_counterexample:
  "env example_runtime ''/design'' ''env'' ''ectf'' ''docker_env'' ''build_image.Dockerfile''
     empty_world
   = (Inl (FileNotFoundError ''/design/docker_env/build_image.Dockerfile''),
      empty_world\<lparr>trace := [LogInfo ''Building image ectf:env'',
        OpenRead ''/design/docker_env/build_image.Dockerfile'']\<rparr>)"
  by (simp add: env_def Let_def open_read_def read_file_def stat_def path_error_def emit_def
      example_runtime_def empty_world_def plain_fs_def plain_locate_def dirnames_def)

text \<open>
  C7. When the environment build returns normally, the Dockerfile was read, the build
  directory was archived and the docker client has built the tag \<^verbatim>\<open>image:name\<close> from that
  archive; the build returns, as stdout, the bytes of the concatenation of all stream
  entries of the log the client has returned, in order, and the empty bytes as stderr.
\<close>

theorem env_returns_build_log:
  assumes "env rt design name image_repo docker_dir dockerfile w = (Inr r, w')"
  shows "\<exists>bs dockerfile_text fileobj logs_raw x.
     read_file (files w) (joinpath rt (joinpath rt (resolve rt design) docker_dir) dockerfile)
       = Inr bs \<and>
     decode rt bs = Inr dockerfile_text \<and>
     tar rt (joinpath rt (resolve rt design) docker_dir) (''Dockerfile'', dockerfile_text) (files w)
       = Inr fileobj \<and>
     images_build rt (image_repo @ '':'' @ name) fileobj (ext w) = (Inr logs_raw, x) \<and>
     r = (map of_char (concat (spec_stream_entries logs_raw)), [])"
proof -
  let ?p = "joinpath rt (joinpath rt (resolve rt design) docker_dir) dockerfile"
  let ?dir = "joinpath rt (resolve rt design) docker_dir"
  let ?tag = "image_repo @ '':'' @ name"
  obtain bs where bs: "read_file (files w) ?p = Inr bs"
    using assms
    by (cases "read_file (files w) ?p") (auto simp: env_def Let_def open_read_def emit_def)
  obtain dtext where dtext: "decode rt bs = Inr dtext"
    using assms bs
    by (cases "decode rt bs") (auto simp: env_def Let_def open_read_def emit_def)
  obtain ctx where ctx: "tar rt ?dir (''Dockerfile'', dtext) (files w) = Inr ctx"
    using assms bs dtext
    by (cases "tar rt ?dir (''Dockerfile'', dtext) (files w)")
      (auto simp: env_def Let_def open_read_def emit_def)
  obtain res x where res: "images_build rt ?tag ctx (ext w) = (res, x)"
    by (cases "images_build rt ?tag ctx (ext w)") auto
  obtain logs_raw where logs: "res = Inr logs_raw"
    using assms bs dtext ctx res
    by (cases res) (auto simp: env_def Let_def open_read_def emit_def split: error.splits)
  have "r = (map of_char (concat (spec_stream_entries logs_raw)), [])"
    using assms bs dtext ctx res logs
    by (auto simp: env_def Let_def open_read_def emit_def join_streams_spec encode_def)
  then show ?thesis
    using bs dtext ctx res logs by blast
qed

text \<open>The two stream entries of the example log are \<^verbatim>\<open>Step 1/1\<close> and \<^verbatim>\<open> ok\<close>.\<close>

theorem env_returns_build_log_witness:
  "fst (env example_runtime ''/design'' ''env'' ''ectf'' ''docker_env'' ''build_image.Dockerfile''
     example_world)
   = Inr ([0x53, 0x74, 0x65, 0x70, 0x20, 0x31, 0x2F, 0x31, 0x20, 0x6F, 0x6B], [])"
proof -
  have dockerfile: "read_file (files example_world) ''/design/docker_env/build_image.Dockerfile''
      = Inr []"
    by (simp add: read_file_def stat_def path_error_def example_world_def example_files_def
        plain_fs_def plain_locate_def dirnames_def)
  have "fst (env example_runtime ''/design'' ''env'' ''ectf'' ''docker_env''
      ''build_image.Dockerfile'' example_world)
    = Inr (encode (join_streams [[(''stream'', ''Step 1/1'')],
              [(''aux'', ''sha256'')], [(''stream'', '' ok'')]]), [])"
    using dockerfile by (simp add: env_def Let_def open_read_def emit_def example_runtime_def)
  then have run: "env example_runtime ''/design'' ''env'' ''ectf'' ''docker_env''
      ''build_image.Dockerfile'' example_world
    = (Inr (encode (join_streams [[(''stream'', ''Step 1/1'')],
              [(''aux'', ''sha256'')], [(''stream'', '' ok'')]]), []),
       snd (env example_runtime ''/design'' ''env'' ''ectf'' ''docker_env''
         ''build_image.Dockerfile'' example_world))"
    by (simp add: prod_eq_iff)
  from env_returns_build_log [OF run] obtain fileobj logs_raw x where
    built: "images_build example_runtime (''ectf'' @ '':'' @ ''env'') fileobj (ext example_world)
      = (Inr logs_raw, x)"
    and result: "(encode (join_streams [[(''stream'', ''Step 1/1'')],
              [(''aux'', ''sha256'')], [(''stream'', '' ok'')]]), [])
      = (map of_char (concat (spec_stream_entries logs_raw)), ([] :: bytes))"
    by blast
  from built have "logs_raw = [[(''stream'', ''Step 1/1'')],
              [(''aux'', ''sha256'')], [(''stream'', '' ok'')]]"
    by (simp add: example_runtime_def)
  with result have "encode (join_streams [[(''stream'', ''Step 1/1'')],
              [(''aux'', ''sha256'')], [(''stream'', '' ok'')]])
      = [0x53, 0x74, 0x65, 0x70, 0x20, 0x31, 0x2F, 0x31, 0x20, 0x6F, 0x6B]"
    by simp
  then show ?thesis
    by (subst run) simp
qed

end
